theory Spec2Isabelle
  imports Main "HOL-Library.Word"
begin

unbundle bit_operations_syntax

section \<open>SuperRelay trusted application: data model\<close>

text \<open>
  A shallow embedding of \<^verbatim>\<open>super_relay_ta.c\<close> and \<^verbatim>\<open>super_relay_ta.h\<close>.
  C arrays of fixed size are lists of that length, \<^verbatim>\<open>uint32_t\<close> and \<^verbatim>\<open>uint64_t\<close> are words,
  a pointer handed in by the caller is the function giving the byte at each offset from
  it (C pointers carry no length), and the globals of the file are the fields of one
  state record that every entry point takes and returns.  Buffer sizes and the key count
  are only compared and used as indices (the count is guarded by \<^verbatim>\<open>SR_MAX_KEYS\<close> before its
  only increment), so they are natural numbers.
\<close>

type_synonym byte = "8 word"
type_synonym TEE_Result = "32 word"
type_synonym cptr = "nat \<Rightarrow> byte"

subsection \<open>Constants of the header\<close>

definition SR_MAX_KEY_ID_SIZE :: nat where "SR_MAX_KEY_ID_SIZE = 64"
definition SR_MAX_KEYS :: nat where "SR_MAX_KEYS = 16"
definition SR_SECP256K1_PUBLIC_KEY_SIZE :: nat where "SR_SECP256K1_PUBLIC_KEY_SIZE = 64"
definition SR_SECP256K1_PRIVATE_KEY_SIZE :: nat where "SR_SECP256K1_PRIVATE_KEY_SIZE = 32"
definition SR_SECP256K1_SIGNATURE_SIZE :: nat where "SR_SECP256K1_SIGNATURE_SIZE = 64"
definition SR_MESSAGE_HASH_SIZE :: nat where "SR_MESSAGE_HASH_SIZE = 32"
definition SR_ETHEREUM_ADDRESS_SIZE :: nat where "SR_ETHEREUM_ADDRESS_SIZE = 20"

definition SR_KEY_TYPE_ECDSA_SECP256K1 :: "32 word" where "SR_KEY_TYPE_ECDSA_SECP256K1 = 0"
definition SR_KEY_TYPE_ED25519 :: "32 word" where "SR_KEY_TYPE_ED25519 = 1"
definition SR_KEY_TYPE_MAX :: "32 word" where "SR_KEY_TYPE_MAX = 2"

definition SR_KEY_STATUS_ACTIVE :: "32 word" where "SR_KEY_STATUS_ACTIVE = 0"
definition SR_KEY_STATUS_INACTIVE :: "32 word" where "SR_KEY_STATUS_INACTIVE = 1"
definition SR_KEY_STATUS_COMPROMISED :: "32 word" where "SR_KEY_STATUS_COMPROMISED = 2"

definition SR_SUCCESS :: "32 word" where "SR_SUCCESS = 0"
definition SR_ERROR_KEY_NOT_FOUND :: TEE_Result where "SR_ERROR_KEY_NOT_FOUND = 0x00000004"
definition SR_ERROR_KEY_ALREADY_EXISTS :: TEE_Result where "SR_ERROR_KEY_ALREADY_EXISTS = 0x00000005"

definition TA_SUPER_RELAY_CMD_GENERATE_KEY :: "32 word" where "TA_SUPER_RELAY_CMD_GENERATE_KEY = 0"
definition TA_SUPER_RELAY_CMD_IMPORT_KEY :: "32 word" where "TA_SUPER_RELAY_CMD_IMPORT_KEY = 1"
definition TA_SUPER_RELAY_CMD_SIGN_MESSAGE :: "32 word" where "TA_SUPER_RELAY_CMD_SIGN_MESSAGE = 2"
definition TA_SUPER_RELAY_CMD_GET_PUBLIC_KEY :: "32 word" where "TA_SUPER_RELAY_CMD_GET_PUBLIC_KEY = 3"
definition TA_SUPER_RELAY_CMD_DELETE_KEY :: "32 word" where "TA_SUPER_RELAY_CMD_DELETE_KEY = 4"
definition TA_SUPER_RELAY_CMD_LIST_KEYS :: "32 word" where "TA_SUPER_RELAY_CMD_LIST_KEYS = 5"
definition TA_SUPER_RELAY_CMD_GET_VERSION :: "32 word" where "TA_SUPER_RELAY_CMD_GET_VERSION = 6"
definition TA_SUPER_RELAY_CMD_HEALTH_CHECK :: "32 word" where "TA_SUPER_RELAY_CMD_HEALTH_CHECK = 7"

subsection \<open>Constants of the TEE Internal Core API\<close>

text \<open>
  \<^verbatim>\<open>tee_internal_api.h\<close> belongs to the hosting environment and is not part of the
  repository.  The result codes and parameter types below carry the values the
  GlobalPlatform TEE Internal Core API assigns to them; the theorems only depend on their
  being pairwise distinct.
\<close>

definition TEE_SUCCESS :: TEE_Result where "TEE_SUCCESS = 0x00000000"
definition TEE_ERROR_ACCESS_DENIED :: TEE_Result where "TEE_ERROR_ACCESS_DENIED = 0xFFFF0001"
definition TEE_ERROR_BAD_PARAMETERS :: TEE_Result where "TEE_ERROR_BAD_PARAMETERS = 0xFFFF0006"
definition TEE_ERROR_NOT_IMPLEMENTED :: TEE_Result where "TEE_ERROR_NOT_IMPLEMENTED = 0xFFFF0009"
definition TEE_ERROR_NOT_SUPPORTED :: TEE_Result where "TEE_ERROR_NOT_SUPPORTED = 0xFFFF000A"
definition TEE_ERROR_SHORT_BUFFER :: TEE_Result where "TEE_ERROR_SHORT_BUFFER = 0xFFFF0010"
definition TEE_ERROR_STORAGE_NO_SPACE :: TEE_Result where "TEE_ERROR_STORAGE_NO_SPACE = 0xFFFF3041"

definition TEE_PARAM_TYPE_NONE :: "32 word" where "TEE_PARAM_TYPE_NONE = 0"
definition TEE_PARAM_TYPE_VALUE_INPUT :: "32 word" where "TEE_PARAM_TYPE_VALUE_INPUT = 1"
definition TEE_PARAM_TYPE_MEMREF_INPUT :: "32 word" where "TEE_PARAM_TYPE_MEMREF_INPUT = 5"
definition TEE_PARAM_TYPE_MEMREF_OUTPUT :: "32 word" where "TEE_PARAM_TYPE_MEMREF_OUTPUT = 6"

definition TEE_PARAM_TYPES :: "32 word \<Rightarrow> 32 word \<Rightarrow> 32 word \<Rightarrow> 32 word \<Rightarrow> 32 word" where
  "TEE_PARAM_TYPES t0 t1 t2 t3 = (t0 OR push_bit 4 t1 OR push_bit 8 t2 OR push_bit 12 t3)"

subsection \<open>Structures\<close>

text \<open>\<^verbatim>\<open>sr_key_info_t\<close>: the public metadata of a key.\<close>

record sr_key_info_t =
  info_key_id :: "byte list"
  info_key_type :: "32 word"
  status :: "32 word"
  created_time :: "64 word"
  last_used_time :: "64 word"
  usage_count :: "32 word"
  ethereum_address :: "byte list"

text \<open>\<^verbatim>\<open>sr_key_entry_t\<close>: the full record of a key, secret material included.\<close>

record sr_key_entry_t =
  key_id :: "byte list"
  key_type :: "32 word"
  private_key :: "byte list"
  public_key :: "byte list"
  private_key_len :: "32 word"
  public_key_len :: "32 word"
  info :: sr_key_info_t

record sr_signature_result_t =
  signature :: "byte list"
  signature_len :: "32 word"
  recovery_id :: byte
  sig_reserved :: "byte list"

record sr_public_key_result_t =
  pk_public_key :: "byte list"
  pk_public_key_len :: "32 word"
  pk_ethereum_address :: "byte list"
  pk_reserved :: "byte list"

record sr_key_list_result_t =
  key_count :: nat
  keys :: "sr_key_info_t list"

record sr_version_info_t =
  major :: "32 word"
  minor :: "32 word"
  patch :: "32 word"
  build_info :: "byte list"

record sr_health_result_t =
  health_status :: "32 word"
  active_sessions :: "32 word"
  total_operations :: "32 word"
  storage_usage :: "32 word"
  uptime :: "64 word"

text \<open>The globals of \<^verbatim>\<open>super_relay_ta.c\<close>.\<close>

record ta_state =
  g_keys :: "sr_key_info_t list"
  g_key_count :: nat
  g_session_count :: "32 word"
  g_operation_count :: "32 word"
  g_start_time :: "64 word"
  g_key_storage :: "sr_key_entry_t list"

text \<open>
  One slot of \<^verbatim>\<open>TEE_Param params[4]\<close>.  The C type is a union of a memory reference
  and a pair of values; every command reads a slot only as the kind its parameter-type
  check has established, so the two views are separate fields here.  \<open>memref_buffer\<close> is
  the memory the pointer designates: offsets below \<open>memref_size\<close> are the caller's buffer,
  those from \<open>memref_size\<close> on are whatever follows it in memory.
\<close>

record TEE_Param =
  memref_buffer :: cptr
  memref_size :: nat
  value_a :: "32 word"

record TEE_Params =
  param0 :: TEE_Param
  param1 :: TEE_Param
  param2 :: TEE_Param
  param3 :: TEE_Param

text \<open>
  The hosting environment (clock and cryptographic provider) as seen by one command
  invocation: the answer of each call the command may make.  An attribute read and a
  digest or signature answer carry the result code and the bytes produced.  The last
  field is the content of the stack where \<^verbatim>\<open>derive_ethereum_address\<close> has its local array
  \<^verbatim>\<open>hash[32]\<close>, which the function does not initialise.
\<close>

record tee_env =
  system_time_seconds :: "32 word"
  allocate_transient_object :: TEE_Result
  generate_key :: TEE_Result
  attr_private_value :: "TEE_Result \<times> byte list"
  attr_public_value_x :: "TEE_Result \<times> byte list"
  attr_public_value_y :: "TEE_Result \<times> byte list"
  digest_do_final :: "byte list \<Rightarrow> TEE_Result \<times> byte list"
  populate_transient_object :: TEE_Result
  allocate_operation :: TEE_Result
  set_operation_key :: TEE_Result
  asymmetric_sign_digest :: "byte list \<Rightarrow> byte list \<Rightarrow> TEE_Result \<times> byte list"
  uninitialised_hash :: "nat \<Rightarrow> byte"

text \<open>What a command leaves in its output parameter.\<close>

datatype cmd_output =
    NoOutput
  | Address "byte list"
  | SignatureResult sr_signature_result_t
  | PublicKeyResult sr_public_key_result_t
  | KeyListResult sr_key_list_result_t
  | VersionInfo sr_version_info_t
  | HealthResult sr_health_result_t

section \<open>C library helpers\<close>

definition zeros :: "nat \<Rightarrow> byte list" where
  "zeros n = replicate n 0"

text \<open>An array read through a pointer to its first element.\<close>

definition array_ptr :: "byte list \<Rightarrow> cptr" where
  "array_ptr xs = (\<lambda>i. xs ! i)"

text \<open>
  \<^verbatim>\<open>memcpy(dst + off, src, length src)\<close> into an array: the elements are replaced in
  place and the array keeps its length.
\<close>

definition array_write :: "'a list \<Rightarrow> nat \<Rightarrow> 'a list \<Rightarrow> 'a list" where
  "array_write dst off src = take off dst @ src @ drop (off + length src) dst"

text \<open>
  \<^verbatim>\<open>strncmp(s1, s2, n) == 0\<close>: the strings are compared byte by byte, from offset \<open>i\<close>, for at
  most \<open>n\<close> bytes, and the comparison stops behind the first NUL.
\<close>

fun strncmp_eq :: "cptr \<Rightarrow> cptr \<Rightarrow> nat \<Rightarrow> nat \<Rightarrow> bool" where
  "strncmp_eq s1 s2 i 0 = True"
| "strncmp_eq s1 s2 i (Suc n) =
     (if s1 i \<noteq> s2 i then False
      else if s1 i = 0 then True
      else strncmp_eq s1 s2 (Suc i) n)"

text \<open>
  The \<open>n\<close> bytes that \<^verbatim>\<open>strncpy(dst, src, n)\<close> writes: the bytes of \<open>src\<close> up to its first NUL,
  then NULs up to \<open>n\<close>.
\<close>

fun strncpy_bytes :: "cptr \<Rightarrow> nat \<Rightarrow> nat \<Rightarrow> byte list" where
  "strncpy_bytes src i 0 = []"
| "strncpy_bytes src i (Suc n) =
     (if src i = 0 then replicate (Suc n) 0 else src i # strncpy_bytes src (Suc i) n)"

definition strncpy :: "byte list \<Rightarrow> cptr \<Rightarrow> nat \<Rightarrow> byte list" where
  "strncpy dst src n = array_write dst 0 (strncpy_bytes src 0 n)"

section \<open>Utility functions\<close>

definition get_current_time :: "tee_env \<Rightarrow> 64 word" where
  "get_current_time env = ucast (system_time_seconds env)"

text \<open>
  \<^verbatim>\<open>find_key_index\<close>: the loop over the live slots, from slot \<open>i\<close> with \<open>n\<close> slots to go; the
  C function returns the index or \<open>-1\<close>.
\<close>

fun find_key_loop :: "sr_key_entry_t list \<Rightarrow> cptr \<Rightarrow> nat \<Rightarrow> nat \<Rightarrow> nat option" where
  "find_key_loop st kid i 0 = None"
| "find_key_loop st kid i (Suc n) =
     (if strncmp_eq (array_ptr (key_id (st ! i))) kid 0 SR_MAX_KEY_ID_SIZE then Some i
      else find_key_loop st kid (Suc i) n)"

definition find_key_index :: "ta_state \<Rightarrow> cptr \<Rightarrow> nat option" where
  "find_key_index s kid = find_key_loop (g_key_storage s) kid 0 (g_key_count s)"

text \<open>
  \<^verbatim>\<open>derive_ethereum_address\<close>: the digest of the 64 bytes at \<open>public_key\<close> goes into the local
  \<^verbatim>\<open>hash[32]\<close>; on a failure of the digest the address is cleared and the function returns
  normally.  The provider is told the buffer holds 32 bytes and writes no more; bytes of
  \<open>hash\<close> it leaves unwritten (none for a 32-byte digest) keep what the stack held.
\<close>

definition derive_ethereum_address :: "tee_env \<Rightarrow> byte list \<Rightarrow> byte list" where
  "derive_ethereum_address env pk =
     (case digest_do_final env (take 64 pk) of (res, out) \<Rightarrow>
        let hash = array_write (map (uninitialised_hash env) [0..<32]) 0 (take 32 out) in
        if res \<noteq> TEE_SUCCESS then zeros SR_ETHEREUM_ADDRESS_SIZE
        else take SR_ETHEREUM_ADDRESS_SIZE (drop 12 hash))"

section \<open>Cryptographic functions\<close>

text \<open>
  \<^verbatim>\<open>TEE_GetObjectBufferAttribute(object, id, buf + off, &size)\<close> with \<open>size = cap\<close>: on success
  the provider has written the attribute (never more than \<open>cap\<close> bytes) and set the size
  to its length; on failure the buffer is as before.
\<close>

definition get_object_buffer_attribute ::
    "TEE_Result \<times> byte list \<Rightarrow> byte list \<Rightarrow> nat \<Rightarrow> nat \<Rightarrow> TEE_Result \<times> byte list \<times> nat" where
  "get_object_buffer_attribute answer buf off cap =
     (case answer of (res, v) \<Rightarrow>
        if res \<noteq> TEE_SUCCESS then (res, buf, cap)
        else (res, array_write buf off (take cap v), length (take cap v)))"

definition generate_secp256k1_keypair :: "tee_env \<Rightarrow> sr_key_entry_t \<Rightarrow> TEE_Result \<times> sr_key_entry_t" where
  "generate_secp256k1_keypair env key_entry =
     (if allocate_transient_object env \<noteq> TEE_SUCCESS then (allocate_transient_object env, key_entry)
      else if generate_key env \<noteq> TEE_SUCCESS then (generate_key env, key_entry)
      else
        case get_object_buffer_attribute (attr_private_value env) (private_key key_entry) 0
               SR_SECP256K1_PRIVATE_KEY_SIZE of
          (res1, priv, private_key_len') \<Rightarrow>
        if res1 \<noteq> TEE_SUCCESS then (res1, key_entry)
        else
          let e1 = key_entry\<lparr>private_key := priv, private_key_len := of_nat private_key_len'\<rparr> in
          case get_object_buffer_attribute (attr_public_value_x env) (public_key e1) 0 32 of
            (res2, pub1, pub_x_len) \<Rightarrow>
          if res2 \<noteq> TEE_SUCCESS then (res2, e1)
          else
            case get_object_buffer_attribute (attr_public_value_y env) pub1 32 32 of
              (res3, pub2, pub_y_len) \<Rightarrow>
            if res3 \<noteq> TEE_SUCCESS then (res3, e1\<lparr>public_key := pub1\<rparr>)
            else
              let e2 = e1\<lparr>public_key := pub2,
                         public_key_len := of_nat pub_x_len + of_nat pub_y_len\<rparr> in
              (res3, e2\<lparr>info := (info e2)\<lparr>ethereum_address :=
                                    derive_ethereum_address env (public_key e2)\<rparr>\<rparr>))"

text \<open>
  \<^verbatim>\<open>sign_message_ecdsa\<close>: the provider signs with the stored private key (its first
  \<open>private_key_len\<close> bytes) and writes at most 64 bytes of signature; when it reports a
  failure the result structure is left as it was.
\<close>

definition sign_message_ecdsa ::
    "tee_env \<Rightarrow> sr_key_entry_t \<Rightarrow> byte list \<Rightarrow> sr_signature_result_t
       \<Rightarrow> TEE_Result \<times> sr_signature_result_t" where
  "sign_message_ecdsa env key_entry message_hash result =
     (if allocate_transient_object env \<noteq> TEE_SUCCESS then (allocate_transient_object env, result)
      else if populate_transient_object env \<noteq> TEE_SUCCESS then (populate_transient_object env, result)
      else if allocate_operation env \<noteq> TEE_SUCCESS then (allocate_operation env, result)
      else if set_operation_key env \<noteq> TEE_SUCCESS then (set_operation_key env, result)
      else
        case asymmetric_sign_digest env
               (take (unat (private_key_len key_entry)) (private_key key_entry))
               (take SR_MESSAGE_HASH_SIZE message_hash) of
          (res, sig) \<Rightarrow>
        if res \<noteq> TEE_SUCCESS then (res, result)
        else
          (res, result\<lparr>signature := array_write (signature result) 0
                                        (take SR_SECP256K1_SIGNATURE_SIZE sig),
                       signature_len := of_nat (length (take SR_SECP256K1_SIGNATURE_SIZE sig)),
                       recovery_id := 0\<rparr>))"

section \<open>Command implementations\<close>

text \<open>Structures cleared by \<^verbatim>\<open>memset(p, 0, sizeof(*p))\<close>.\<close>

definition zero_key_info :: sr_key_info_t where
  "zero_key_info = \<lparr>info_key_id = zeros SR_MAX_KEY_ID_SIZE, info_key_type = 0, status = 0,
     created_time = 0, last_used_time = 0, usage_count = 0,
     ethereum_address = zeros SR_ETHEREUM_ADDRESS_SIZE\<rparr>"

definition zero_key_entry :: sr_key_entry_t where
  "zero_key_entry = \<lparr>key_id = zeros SR_MAX_KEY_ID_SIZE, key_type = 0,
     private_key = zeros SR_SECP256K1_PRIVATE_KEY_SIZE,
     public_key = zeros SR_SECP256K1_PUBLIC_KEY_SIZE,
     private_key_len = 0, public_key_len = 0, info = zero_key_info\<rparr>"

definition zero_signature_result :: sr_signature_result_t where
  "zero_signature_result = \<lparr>signature = zeros SR_SECP256K1_SIGNATURE_SIZE, signature_len = 0,
     recovery_id = 0, sig_reserved = zeros 3\<rparr>"

definition zero_public_key_result :: sr_public_key_result_t where
  "zero_public_key_result = \<lparr>pk_public_key = zeros SR_SECP256K1_PUBLIC_KEY_SIZE,
     pk_public_key_len = 0, pk_ethereum_address = zeros SR_ETHEREUM_ADDRESS_SIZE,
     pk_reserved = zeros 8\<rparr>"

text \<open>
  The \<^verbatim>\<open>sizeof\<close> of the structures, for 4-byte enumerations and 8-byte alignment of
  \<^verbatim>\<open>uint64_t\<close>.
\<close>

definition sizeof_sr_signature_result_t :: nat where "sizeof_sr_signature_result_t = 72"
definition sizeof_sr_public_key_result_t :: nat where "sizeof_sr_public_key_result_t = 96"
definition sizeof_sr_key_list_result_t :: nat where "sizeof_sr_key_list_result_t = 1800"
definition sizeof_sr_version_info_t :: nat where "sizeof_sr_version_info_t = 76"
definition sizeof_sr_health_result_t :: nat where "sizeof_sr_health_result_t = 24"
definition sizeof_sr_key_entry_t :: nat where "sizeof_sr_key_entry_t = 288"

text \<open>
  \<^verbatim>\<open>cmd_generate_key\<close>.  The key type is the unsigned value of \<^verbatim>\<open>params[1].value.a\<close>, as
  the enumeration has no negative member.  From the \<^verbatim>\<open>memset\<close> on the command works in
  the slot behind the live records, so a failure after that point returns a state in
  which this slot holds what was written so far, with the count unchanged.
\<close>

definition cmd_generate_key ::
    "tee_env \<Rightarrow> ta_state \<Rightarrow> 32 word \<Rightarrow> TEE_Params \<Rightarrow> TEE_Result \<times> cmd_output \<times> ta_state" where
  "cmd_generate_key env s param_types params =
     (let exp_param_types = TEE_PARAM_TYPES TEE_PARAM_TYPE_MEMREF_INPUT TEE_PARAM_TYPE_VALUE_INPUT
                              TEE_PARAM_TYPE_MEMREF_OUTPUT TEE_PARAM_TYPE_NONE in
      if param_types \<noteq> exp_param_types then (TEE_ERROR_BAD_PARAMETERS, NoOutput, s)
      else if g_key_count s \<ge> SR_MAX_KEYS then (TEE_ERROR_STORAGE_NO_SPACE, NoOutput, s)
      else
        let kid = memref_buffer (param0 params);
            key_id_len = memref_size (param0 params);
            ktype = value_a (param1 params) in
        if key_id_len = 0 \<or> key_id_len \<ge> SR_MAX_KEY_ID_SIZE then (TEE_ERROR_BAD_PARAMETERS, NoOutput, s)
        else if ktype \<ge> SR_KEY_TYPE_MAX then (TEE_ERROR_BAD_PARAMETERS, NoOutput, s)
        else if find_key_index s kid \<noteq> None then (SR_ERROR_KEY_ALREADY_EXISTS, NoOutput, s)
        else
          let e0 = zero_key_entry;
              e1 = e0\<lparr>key_id := (strncpy (key_id e0) kid key_id_len)[key_id_len := 0]\<rparr>;
              e2 = e1\<lparr>key_type := ktype\<rparr>;
              now = get_current_time env;
              e3 = e2\<lparr>info := (info e2)\<lparr>
                     info_key_id := strncpy (info_key_id (info e2)) (array_ptr (key_id e2))
                                      (SR_MAX_KEY_ID_SIZE - 1),
                     info_key_type := ktype,
                     status := SR_KEY_STATUS_ACTIVE,
                     created_time := now,
                     last_used_time := now,
                     usage_count := 0\<rparr>\<rparr>;
              (res, key_entry) =
                (if ktype = SR_KEY_TYPE_ECDSA_SECP256K1 then generate_secp256k1_keypair env e3
                 else if ktype = SR_KEY_TYPE_ED25519 then (TEE_ERROR_NOT_IMPLEMENTED, e3)
                 else (TEE_ERROR_NOT_SUPPORTED, e3));
              s1 = s\<lparr>g_key_storage := (g_key_storage s)[g_key_count s := key_entry]\<rparr>
          in
          if res \<noteq> TEE_SUCCESS then (res, NoOutput, s1)
          else if memref_size (param2 params) < SR_ETHEREUM_ADDRESS_SIZE
            then (TEE_ERROR_SHORT_BUFFER, NoOutput, s1)
          else
            (TEE_SUCCESS,
             Address (take SR_ETHEREUM_ADDRESS_SIZE (ethereum_address (info key_entry))),
             s1\<lparr>g_keys := (g_keys s1)[g_key_count s := info key_entry],
                g_key_count := g_key_count s + 1,
                g_operation_count := g_operation_count s + 1\<rparr>))"

definition cmd_sign_message ::
    "tee_env \<Rightarrow> ta_state \<Rightarrow> 32 word \<Rightarrow> TEE_Params \<Rightarrow> TEE_Result \<times> cmd_output \<times> ta_state" where
  "cmd_sign_message env s param_types params =
     (let exp_param_types = TEE_PARAM_TYPES TEE_PARAM_TYPE_MEMREF_INPUT TEE_PARAM_TYPE_MEMREF_INPUT
                              TEE_PARAM_TYPE_MEMREF_OUTPUT TEE_PARAM_TYPE_NONE in
      if param_types \<noteq> exp_param_types then (TEE_ERROR_BAD_PARAMETERS, NoOutput, s)
      else
        let kid = memref_buffer (param0 params);
            key_id_len = memref_size (param0 params);
            message_hash = memref_buffer (param1 params);
            hash_len = memref_size (param1 params) in
        if key_id_len = 0 \<or> key_id_len \<ge> SR_MAX_KEY_ID_SIZE then (TEE_ERROR_BAD_PARAMETERS, NoOutput, s)
        else if hash_len \<noteq> SR_MESSAGE_HASH_SIZE then (TEE_ERROR_BAD_PARAMETERS, NoOutput, s)
        else if memref_size (param2 params) < sizeof_sr_signature_result_t
          then (TEE_ERROR_SHORT_BUFFER, NoOutput, s)
        else
          case find_key_index s kid of
            None \<Rightarrow> (SR_ERROR_KEY_NOT_FOUND, NoOutput, s)
          | Some key_index \<Rightarrow>
              let key_entry = g_key_storage s ! key_index in
              if status (info key_entry) \<noteq> SR_KEY_STATUS_ACTIVE
                then (TEE_ERROR_ACCESS_DENIED, NoOutput, s)
              else
                let (res, result) =
                      (if key_type key_entry = SR_KEY_TYPE_ECDSA_SECP256K1
                         then sign_message_ecdsa env key_entry
                                (map message_hash [0..<SR_MESSAGE_HASH_SIZE]) zero_signature_result
                       else if key_type key_entry = SR_KEY_TYPE_ED25519
                         then (TEE_ERROR_NOT_IMPLEMENTED, zero_signature_result)
                       else (TEE_ERROR_NOT_SUPPORTED, zero_signature_result))
                in
                if res = TEE_SUCCESS then
                  let info' = (info key_entry)\<lparr>last_used_time := get_current_time env,
                                                usage_count := usage_count (info key_entry) + 1\<rparr>
                  in (res, SignatureResult result,
                      s\<lparr>g_key_storage := (g_key_storage s)[key_index := key_entry\<lparr>info := info'\<rparr>],
                        g_keys := (g_keys s)[key_index := info'],
                        g_operation_count := g_operation_count s + 1\<rparr>)
                else (res, SignatureResult result, s))"

definition cmd_get_public_key ::
    "ta_state \<Rightarrow> 32 word \<Rightarrow> TEE_Params \<Rightarrow> TEE_Result \<times> cmd_output \<times> ta_state" where
  "cmd_get_public_key s param_types params =
     (let exp_param_types = TEE_PARAM_TYPES TEE_PARAM_TYPE_MEMREF_INPUT TEE_PARAM_TYPE_MEMREF_OUTPUT
                              TEE_PARAM_TYPE_NONE TEE_PARAM_TYPE_NONE in
      if param_types \<noteq> exp_param_types then (TEE_ERROR_BAD_PARAMETERS, NoOutput, s)
      else
        let kid = memref_buffer (param0 params);
            key_id_len = memref_size (param0 params) in
        if key_id_len = 0 \<or> key_id_len \<ge> SR_MAX_KEY_ID_SIZE then (TEE_ERROR_BAD_PARAMETERS, NoOutput, s)
        else if memref_size (param1 params) < sizeof_sr_public_key_result_t
          then (TEE_ERROR_SHORT_BUFFER, NoOutput, s)
        else
          case find_key_index s kid of
            None \<Rightarrow> (SR_ERROR_KEY_NOT_FOUND, NoOutput, s)
          | Some key_index \<Rightarrow>
              let key_entry = g_key_storage s ! key_index;
                  r0 = zero_public_key_result;
                  r1 = r0\<lparr>pk_public_key := array_write (pk_public_key r0) 0
                             (take (unat (public_key_len key_entry)) (public_key key_entry))\<rparr>;
                  r2 = r1\<lparr>pk_public_key_len := public_key_len key_entry\<rparr>;
                  r3 = r2\<lparr>pk_ethereum_address := array_write (pk_ethereum_address r2) 0
                             (take SR_ETHEREUM_ADDRESS_SIZE (ethereum_address (info key_entry)))\<rparr>
              in (TEE_SUCCESS, PublicKeyResult r3,
                  s\<lparr>g_operation_count := g_operation_count s + 1\<rparr>))"

definition cmd_list_keys ::
    "ta_state \<Rightarrow> 32 word \<Rightarrow> TEE_Params \<Rightarrow> TEE_Result \<times> cmd_output \<times> ta_state" where
  "cmd_list_keys s param_types params =
     (let exp_param_types = TEE_PARAM_TYPES TEE_PARAM_TYPE_MEMREF_OUTPUT TEE_PARAM_TYPE_NONE
                              TEE_PARAM_TYPE_NONE TEE_PARAM_TYPE_NONE in
      if param_types \<noteq> exp_param_types then (TEE_ERROR_BAD_PARAMETERS, NoOutput, s)
      else if memref_size (param0 params) < sizeof_sr_key_list_result_t
        then (TEE_ERROR_SHORT_BUFFER, NoOutput, s)
      else
        let r0 = \<lparr>key_count = 0, keys = replicate SR_MAX_KEYS zero_key_info\<rparr>;
            r1 = r0\<lparr>key_count := g_key_count s\<rparr>;
            r2 = r1\<lparr>keys := array_write (keys r1) 0 (take (g_key_count s) (g_keys s))\<rparr>
        in (TEE_SUCCESS, KeyListResult r2, s\<lparr>g_operation_count := g_operation_count s + 1\<rparr>))"

definition build_info_string :: "byte list" where
  "build_info_string = map (of_nat \<circ> of_char) ''SuperRelay TA v1.0.0''"

definition cmd_get_version ::
    "ta_state \<Rightarrow> 32 word \<Rightarrow> TEE_Params \<Rightarrow> TEE_Result \<times> cmd_output \<times> ta_state" where
  "cmd_get_version s param_types params =
     (let exp_param_types = TEE_PARAM_TYPES TEE_PARAM_TYPE_MEMREF_OUTPUT TEE_PARAM_TYPE_NONE
                              TEE_PARAM_TYPE_NONE TEE_PARAM_TYPE_NONE in
      if param_types \<noteq> exp_param_types then (TEE_ERROR_BAD_PARAMETERS, NoOutput, s)
      else if memref_size (param0 params) < sizeof_sr_version_info_t
        then (TEE_ERROR_SHORT_BUFFER, NoOutput, s)
      else
        (TEE_SUCCESS,
         VersionInfo \<lparr>major = 1, minor = 0, patch = 0,
           build_info = array_write (zeros 64) 0 build_info_string\<rparr>,
         s))"

definition cmd_health_check ::
    "tee_env \<Rightarrow> ta_state \<Rightarrow> 32 word \<Rightarrow> TEE_Params \<Rightarrow> TEE_Result \<times> cmd_output \<times> ta_state" where
  "cmd_health_check env s param_types params =
     (let exp_param_types = TEE_PARAM_TYPES TEE_PARAM_TYPE_MEMREF_OUTPUT TEE_PARAM_TYPE_NONE
                              TEE_PARAM_TYPE_NONE TEE_PARAM_TYPE_NONE in
      if param_types \<noteq> exp_param_types then (TEE_ERROR_BAD_PARAMETERS, NoOutput, s)
      else if memref_size (param0 params) < sizeof_sr_health_result_t
        then (TEE_ERROR_SHORT_BUFFER, NoOutput, s)
      else
        (TEE_SUCCESS,
         HealthResult \<lparr>health_status = SR_SUCCESS,
           active_sessions = g_session_count s,
           total_operations = g_operation_count s,
           storage_usage = of_nat (g_key_count s * sizeof_sr_key_entry_t),
           uptime = get_current_time env - g_start_time s\<rparr>,
         s))"

section \<open>Entry points\<close>

definition TA_CreateEntryPoint :: "tee_env \<Rightarrow> ta_state" where
  "TA_CreateEntryPoint env =
     \<lparr>g_keys = replicate SR_MAX_KEYS zero_key_info,
      g_key_count = 0,
      g_session_count = 0,
      g_operation_count = 0,
      g_start_time = get_current_time env,
      g_key_storage = replicate SR_MAX_KEYS zero_key_entry\<rparr>"

definition TA_DestroyEntryPoint :: "ta_state \<Rightarrow> ta_state" where
  "TA_DestroyEntryPoint s =
     s\<lparr>g_key_storage := replicate SR_MAX_KEYS zero_key_entry,
       g_keys := replicate SR_MAX_KEYS zero_key_info\<rparr>"

definition TA_OpenSessionEntryPoint :: "ta_state \<Rightarrow> TEE_Result \<times> ta_state" where
  "TA_OpenSessionEntryPoint s = (TEE_SUCCESS, s\<lparr>g_session_count := g_session_count s + 1\<rparr>)"

definition TA_CloseSessionEntryPoint :: "ta_state \<Rightarrow> ta_state" where
  "TA_CloseSessionEntryPoint s =
     (if g_session_count s > 0 then s\<lparr>g_session_count := g_session_count s - 1\<rparr> else s)"

definition TA_InvokeCommandEntryPoint ::
    "tee_env \<Rightarrow> ta_state \<Rightarrow> 32 word \<Rightarrow> 32 word \<Rightarrow> TEE_Params
       \<Rightarrow> TEE_Result \<times> cmd_output \<times> ta_state" where
  "TA_InvokeCommandEntryPoint env s cmd_id param_types params =
     (if cmd_id = TA_SUPER_RELAY_CMD_GENERATE_KEY then cmd_generate_key env s param_types params
      else if cmd_id = TA_SUPER_RELAY_CMD_SIGN_MESSAGE then cmd_sign_message env s param_types params
      else if cmd_id = TA_SUPER_RELAY_CMD_GET_PUBLIC_KEY then cmd_get_public_key s param_types params
      else if cmd_id = TA_SUPER_RELAY_CMD_LIST_KEYS then cmd_list_keys s param_types params
      else if cmd_id = TA_SUPER_RELAY_CMD_GET_VERSION then cmd_get_version s param_types params
      else if cmd_id = TA_SUPER_RELAY_CMD_HEALTH_CHECK then cmd_health_check env s param_types params
      else if cmd_id = TA_SUPER_RELAY_CMD_IMPORT_KEY \<or> cmd_id = TA_SUPER_RELAY_CMD_DELETE_KEY
        then (TEE_ERROR_NOT_IMPLEMENTED, NoOutput, s)
      else (TEE_ERROR_BAD_PARAMETERS, NoOutput, s))"

subsection \<open>Sequences of calls\<close>

text \<open>
  What the framework does with a running instance: it opens a session, closes one, or
  invokes a command; an invocation comes with the environment's answers for that call.
\<close>

datatype event =
    OpenSession
  | CloseSession
  | InvokeCommand tee_env "32 word" "32 word" TEE_Params

fun step :: "ta_state \<Rightarrow> event \<Rightarrow> TEE_Result \<times> cmd_output \<times> ta_state" where
  "step s OpenSession = (case TA_OpenSessionEntryPoint s of (res, s') \<Rightarrow> (res, NoOutput, s'))"
| "step s CloseSession = (TEE_SUCCESS, NoOutput, TA_CloseSessionEntryPoint s)"
| "step s (InvokeCommand env cmd_id param_types params) =
     TA_InvokeCommandEntryPoint env s cmd_id param_types params"

definition step_state :: "ta_state \<Rightarrow> event \<Rightarrow> ta_state" where
  "step_state s ev = snd (snd (step s ev))"

definition run :: "ta_state \<Rightarrow> event list \<Rightarrow> ta_state" where
  "run s evs = foldl step_state s evs"

text \<open>The states an instance can be in: created, then driven by any sequence of calls.\<close>

inductive reachable :: "ta_state \<Rightarrow> bool" where
  created: "reachable (TA_CreateEntryPoint env)"
| stepped: "reachable s \<Longrightarrow> reachable (step_state s ev)"

section \<open>Vocabulary of the properties\<close>

subsection \<open>Identifiers as strings\<close>

text \<open>
  The C string at a pointer, read for at most \<open>n\<close> bytes: the bytes before the first NUL.
\<close>

definition c_string :: "cptr \<Rightarrow> nat \<Rightarrow> byte list" where
  "c_string p n = takeWhile (\<lambda>b. b \<noteq> 0) (map p [0..<n])"

text \<open>
  The identifier a stored record carries and the identifier of a metadata entry (each
  the string in its 64-byte array), and the bytes a caller declares.
\<close>

definition stored_key_id :: "sr_key_entry_t \<Rightarrow> byte list" where
  "stored_key_id e = c_string (array_ptr (key_id e)) SR_MAX_KEY_ID_SIZE"

definition info_id :: "sr_key_info_t \<Rightarrow> byte list" where
  "info_id i = c_string (array_ptr (info_key_id i)) SR_MAX_KEY_ID_SIZE"

definition declared_bytes :: "TEE_Param \<Rightarrow> byte list" where
  "declared_bytes p = map (memref_buffer p) [0..<memref_size p]"

text \<open>
  A key identifier passed as a string: no NUL among the declared bytes, and the
  terminating NUL right behind them.
\<close>

definition string_param :: "TEE_Param \<Rightarrow> bool" where
  "string_param p = (0 \<notin> set (declared_bytes p) \<and> memref_buffer p (memref_size p) = 0)"

subsection \<open>The parameter types the commands expect\<close>

definition generate_types :: "32 word" where
  "generate_types = TEE_PARAM_TYPES TEE_PARAM_TYPE_MEMREF_INPUT TEE_PARAM_TYPE_VALUE_INPUT
                      TEE_PARAM_TYPE_MEMREF_OUTPUT TEE_PARAM_TYPE_NONE"

definition sign_types :: "32 word" where
  "sign_types = TEE_PARAM_TYPES TEE_PARAM_TYPE_MEMREF_INPUT TEE_PARAM_TYPE_MEMREF_INPUT
                  TEE_PARAM_TYPE_MEMREF_OUTPUT TEE_PARAM_TYPE_NONE"

definition get_public_key_types :: "32 word" where
  "get_public_key_types = TEE_PARAM_TYPES TEE_PARAM_TYPE_MEMREF_INPUT TEE_PARAM_TYPE_MEMREF_OUTPUT
                            TEE_PARAM_TYPE_NONE TEE_PARAM_TYPE_NONE"

definition output_only_types :: "32 word" where
  "output_only_types = TEE_PARAM_TYPES TEE_PARAM_TYPE_MEMREF_OUTPUT TEE_PARAM_TYPE_NONE
                         TEE_PARAM_TYPE_NONE TEE_PARAM_TYPE_NONE"

subsection \<open>The paths through the commands\<close>

text \<open>
  The record \<^verbatim>\<open>cmd_generate_key\<close> has initialised in the free slot when it turns to the key
  generator: identifier, type and metadata set, key material still cleared.
\<close>

definition new_key_entry :: "tee_env \<Rightarrow> cptr \<Rightarrow> nat \<Rightarrow> 32 word \<Rightarrow> sr_key_entry_t" where
  "new_key_entry env kid n ktype =
     (let k = (strncpy (zeros SR_MAX_KEY_ID_SIZE) kid n)[n := 0] in
      zero_key_entry\<lparr>key_id := k, key_type := ktype,
        info := zero_key_info\<lparr>
          info_key_id := strncpy (zeros SR_MAX_KEY_ID_SIZE) (array_ptr k) (SR_MAX_KEY_ID_SIZE - 1),
          info_key_type := ktype,
          status := SR_KEY_STATUS_ACTIVE,
          created_time := get_current_time env,
          last_used_time := get_current_time env,
          usage_count := 0\<rparr>\<rparr>)"

definition requested_entry :: "tee_env \<Rightarrow> TEE_Params \<Rightarrow> sr_key_entry_t" where
  "requested_entry env ps =
     new_key_entry env (memref_buffer (param0 ps)) (memref_size (param0 ps)) (value_a (param1 ps))"

text \<open>
  The switch on the key type in \<^verbatim>\<open>cmd_generate_key\<close> and the one in \<^verbatim>\<open>cmd_sign_message\<close>.
\<close>

definition keypair_by_type :: "tee_env \<Rightarrow> 32 word \<Rightarrow> sr_key_entry_t \<Rightarrow> TEE_Result \<times> sr_key_entry_t" where
  "keypair_by_type env ktype e =
     (if ktype = SR_KEY_TYPE_ECDSA_SECP256K1 then generate_secp256k1_keypair env e
      else if ktype = SR_KEY_TYPE_ED25519 then (TEE_ERROR_NOT_IMPLEMENTED, e)
      else (TEE_ERROR_NOT_SUPPORTED, e))"

definition sign_by_type ::
    "tee_env \<Rightarrow> sr_key_entry_t \<Rightarrow> cptr \<Rightarrow> TEE_Result \<times> sr_signature_result_t" where
  "sign_by_type env key_entry message_hash =
     (if key_type key_entry = SR_KEY_TYPE_ECDSA_SECP256K1
        then sign_message_ecdsa env key_entry
               (map message_hash [0..<SR_MESSAGE_HASH_SIZE]) zero_signature_result
      else if key_type key_entry = SR_KEY_TYPE_ED25519
        then (TEE_ERROR_NOT_IMPLEMENTED, zero_signature_result)
      else (TEE_ERROR_NOT_SUPPORTED, zero_signature_result))"

text \<open>
  The checks \<^verbatim>\<open>cmd_generate_key\<close> makes before it touches the store, and those of
  \<^verbatim>\<open>cmd_sign_message\<close> before it looks the key up.
\<close>

definition generate_checks :: "ta_state \<Rightarrow> 32 word \<Rightarrow> TEE_Params \<Rightarrow> bool" where
  "generate_checks s pt ps \<longleftrightarrow>
     pt = generate_types \<and> g_key_count s < SR_MAX_KEYS \<and>
     0 < memref_size (param0 ps) \<and> memref_size (param0 ps) < SR_MAX_KEY_ID_SIZE \<and>
     value_a (param1 ps) < SR_KEY_TYPE_MAX \<and>
     find_key_index s (memref_buffer (param0 ps)) = None"

definition sign_checks :: "32 word \<Rightarrow> TEE_Params \<Rightarrow> bool" where
  "sign_checks pt ps \<longleftrightarrow>
     pt = sign_types \<and> 0 < memref_size (param0 ps) \<and> memref_size (param0 ps) < SR_MAX_KEY_ID_SIZE \<and>
     memref_size (param1 ps) = SR_MESSAGE_HASH_SIZE \<and>
     sizeof_sr_signature_result_t \<le> memref_size (param2 ps)"

text \<open>
  The usage statistics after one more successful signature; the state after a successful
  \<^verbatim>\<open>cmd_generate_key\<close> that stored \<open>ke\<close>, and after a successful signature with slot \<open>i\<close>.
\<close>

definition used_info :: "tee_env \<Rightarrow> sr_key_info_t \<Rightarrow> sr_key_info_t" where
  "used_info env i = i\<lparr>last_used_time := get_current_time env, usage_count := usage_count i + 1\<rparr>"

definition generated_state :: "ta_state \<Rightarrow> sr_key_entry_t \<Rightarrow> ta_state" where
  "generated_state s ke =
     s\<lparr>g_key_storage := (g_key_storage s)[g_key_count s := ke],
       g_keys := (g_keys s)[g_key_count s := info ke],
       g_key_count := g_key_count s + 1,
       g_operation_count := g_operation_count s + 1\<rparr>"

definition signed_state :: "tee_env \<Rightarrow> ta_state \<Rightarrow> nat \<Rightarrow> ta_state" where
  "signed_state env s i =
     s\<lparr>g_key_storage := (g_key_storage s)
          [i := (g_key_storage s ! i)\<lparr>info := used_info env (info (g_key_storage s ! i))\<rparr>],
       g_keys := (g_keys s)[i := used_info env (info (g_key_storage s ! i))],
       g_operation_count := g_operation_count s + 1\<rparr>"

text \<open>
  The command a call invokes, if it invokes one.
\<close>

fun command_of :: "event \<Rightarrow> 32 word option" where
  "command_of (InvokeCommand env cmd_id pt ps) = Some cmd_id"
| "command_of _ = None"

subsection \<open>Invariants of the store\<close>

text \<open>
  The two tables have their declared size and the count stays within it; the metadata
  table mirrors the metadata of the live records; every live record is a secp256k1 key.
\<close>

definition arrays_ok :: "ta_state \<Rightarrow> bool" where
  "arrays_ok s \<longleftrightarrow>
     length (g_key_storage s) = SR_MAX_KEYS \<and> length (g_keys s) = SR_MAX_KEYS \<and>
     g_key_count s \<le> SR_MAX_KEYS"

definition mirrored :: "ta_state \<Rightarrow> bool" where
  "mirrored s \<longleftrightarrow> (\<forall>i < g_key_count s. g_keys s ! i = info (g_key_storage s ! i))"

definition all_ecdsa :: "ta_state \<Rightarrow> bool" where
  "all_ecdsa s \<longleftrightarrow>
     (\<forall>i < g_key_count s. key_type (g_key_storage s ! i) = SR_KEY_TYPE_ECDSA_SECP256K1)"

text \<open>
  A record without its usage statistics: what no command changes once the key is live.
\<close>

definition fixed_part :: "sr_key_entry_t \<Rightarrow> sr_key_entry_t" where
  "fixed_part e = e\<lparr>info := (info e)\<lparr>last_used_time := 0, usage_count := 0\<rparr>\<rparr>"

subsection \<open>What a sequence of calls does\<close>

text \<open>
  The result codes of the calls, in order.
\<close>

fun results :: "ta_state \<Rightarrow> event list \<Rightarrow> TEE_Result list" where
  "results s [] = []"
| "results s (ev # evs) = fst (step s ev) # results (step_state s ev) evs"

text \<open>
  The identifiers of the live records, in slot order, and those of the live metadata
  entries.
\<close>

definition live_ids :: "ta_state \<Rightarrow> byte list list" where
  "live_ids s = map stored_key_id (take (g_key_count s) (g_key_storage s))"

definition listed_ids :: "ta_state \<Rightarrow> byte list list" where
  "listed_ids s = map info_id (take (g_key_count s) (g_keys s))"

text \<open>
  The identifiers of the keys that the successful \<^verbatim>\<open>generate_key\<close> calls of a sequence
  create, in the order of the calls: each the string within the declared bytes.
\<close>

fun created_ids :: "ta_state \<Rightarrow> event list \<Rightarrow> byte list list" where
  "created_ids s [] = []"
| "created_ids s (ev # evs) =
     (case ev of
        InvokeCommand env cmd_id pt ps \<Rightarrow>
          if cmd_id = TA_SUPER_RELAY_CMD_GENERATE_KEY \<and> fst (step s ev) = TEE_SUCCESS
          then [c_string (memref_buffer (param0 ps)) (memref_size (param0 ps))] else []
      | _ \<Rightarrow> [])
     @ created_ids (step_state s ev) evs"

text \<open>
  The entries that a \<^verbatim>\<open>list_keys\<close> answer declares valid: the first \<open>key_count\<close> ones.
\<close>

fun listed :: "TEE_Result \<times> cmd_output \<times> ta_state \<Rightarrow> sr_key_info_t list" where
  "listed (res, KeyListResult r, s) = take (key_count r) (keys r)"
| "listed _ = []"

text \<open>
  A provider that serves a key generation; a well-formed request for a secp256k1 key
  that the provider serves, its identifier passed as a string; the identifier a call
  declares.
\<close>

definition provider_ok :: "tee_env \<Rightarrow> bool" where
  "provider_ok env \<longleftrightarrow>
     allocate_transient_object env = TEE_SUCCESS \<and> generate_key env = TEE_SUCCESS \<and>
     fst (attr_private_value env) = TEE_SUCCESS \<and> fst (attr_public_value_x env) = TEE_SUCCESS \<and>
     fst (attr_public_value_y env) = TEE_SUCCESS"

fun valid_generate :: "event \<Rightarrow> bool" where
  "valid_generate (InvokeCommand env cmd_id pt ps) \<longleftrightarrow>
     cmd_id = TA_SUPER_RELAY_CMD_GENERATE_KEY \<and> pt = generate_types \<and>
     0 < memref_size (param0 ps) \<and> memref_size (param0 ps) < SR_MAX_KEY_ID_SIZE \<and>
     string_param (param0 ps) \<and>
     value_a (param1 ps) = SR_KEY_TYPE_ECDSA_SECP256K1 \<and>
     SR_ETHEREUM_ADDRESS_SIZE \<le> memref_size (param2 ps) \<and>
     provider_ok env"
| "valid_generate _ \<longleftrightarrow> False"

text \<open>
  A request that passes every check \<^verbatim>\<open>cmd_generate_key\<close> makes on its parameters, for a
  secp256k1 key, with a provider that serves it.
\<close>

fun well_formed_generate :: "event \<Rightarrow> bool" where
  "well_formed_generate (InvokeCommand env cmd_id pt ps) \<longleftrightarrow>
     cmd_id = TA_SUPER_RELAY_CMD_GENERATE_KEY \<and> pt = generate_types \<and>
     0 < memref_size (param0 ps) \<and> memref_size (param0 ps) < SR_MAX_KEY_ID_SIZE \<and>
     value_a (param1 ps) = SR_KEY_TYPE_ECDSA_SECP256K1 \<and>
     SR_ETHEREUM_ADDRESS_SIZE \<le> memref_size (param2 ps) \<and>
     provider_ok env"
| "well_formed_generate _ \<longleftrightarrow> False"

fun event_key_id :: "event \<Rightarrow> byte list" where
  "event_key_id (InvokeCommand env cmd_id pt ps) = declared_bytes (param0 ps)"
| "event_key_id _ = []"

text \<open>
  The slot a call signs with: the slot the lookup finds, when the call is a
  \<^verbatim>\<open>sign_message\<close> that succeeds.  The number of successful signatures with the key in
  slot \<open>i\<close>, and the last-used time of that key as it stands after each of them.
\<close>

fun signed_slot :: "ta_state \<Rightarrow> event \<Rightarrow> nat option" where
  "signed_slot s (InvokeCommand env cmd_id pt ps) =
     (if cmd_id = TA_SUPER_RELAY_CMD_SIGN_MESSAGE
         \<and> fst (step s (InvokeCommand env cmd_id pt ps)) = TEE_SUCCESS
      then find_key_index s (memref_buffer (param0 ps)) else None)"
| "signed_slot s _ = None"

fun signs_on :: "nat \<Rightarrow> ta_state \<Rightarrow> event list \<Rightarrow> nat" where
  "signs_on i s [] = 0"
| "signs_on i s (ev # evs) =
     (if signed_slot s ev = Some i then 1 else 0) + signs_on i (step_state s ev) evs"

fun use_times :: "nat \<Rightarrow> ta_state \<Rightarrow> event list \<Rightarrow> 64 word list" where
  "use_times i s [] = []"
| "use_times i s (ev # evs) =
     (if signed_slot s ev = Some i
      then [last_used_time (info (g_key_storage (step_state s ev) ! i))] else [])
     @ use_times i (step_state s ev) evs"

text \<open>
  The clock readings that come with the command invocations of a sequence of calls.
\<close>

fun clock :: "event list \<Rightarrow> 32 word list" where
  "clock [] = []"
| "clock (InvokeCommand env cmd_id pt ps # evs) = system_time_seconds env # clock evs"
| "clock (ev # evs) = clock evs"

subsection \<open>Sessions\<close>

text \<open>
  The number of session openings and closings in a sequence of calls.
\<close>

fun opens :: "event list \<Rightarrow> nat" where
  "opens [] = 0"
| "opens (OpenSession # evs) = Suc (opens evs)"
| "opens (ev # evs) = opens evs"

fun closes :: "event list \<Rightarrow> nat" where
  "closes [] = 0"
| "closes (CloseSession # evs) = Suc (closes evs)"
| "closes (ev # evs) = closes evs"

text \<open>
  The session count as the specification's state machine has it: an opening adds one, a
  closing takes one away and stops at zero (subtraction on \<open>nat\<close> does), from \<open>n\<close> sessions.
\<close>

fun session_model :: "nat \<Rightarrow> event list \<Rightarrow> nat" where
  "session_model n [] = n"
| "session_model n (OpenSession # evs) = session_model (n + 1) evs"
| "session_model n (CloseSession # evs) = session_model (n - 1) evs"
| "session_model n (ev # evs) = session_model n evs"

text \<open>
  Every closing finds a session open, from \<open>n\<close> open sessions.
\<close>

fun closes_matched :: "nat \<Rightarrow> event list \<Rightarrow> bool" where
  "closes_matched n [] = True"
| "closes_matched n (OpenSession # evs) = closes_matched (n + 1) evs"
| "closes_matched n (CloseSession # evs) = (0 < n \<and> closes_matched (n - 1) evs)"
| "closes_matched n (ev # evs) = closes_matched n evs"

text \<open>
  The \<open>active_sessions\<close> field of what a health check returns.
\<close>

fun reported_sessions :: "TEE_Result \<times> cmd_output \<times> ta_state \<Rightarrow> 32 word option" where
  "reported_sessions (res, HealthResult h, s) = Some (active_sessions h)"
| "reported_sessions _ = None"

subsection \<open>Secret material\<close>

text \<open>
  A record without its private key, and two states that differ at most in the private
  keys they store.
\<close>

definition public_part :: "sr_key_entry_t \<Rightarrow> sr_key_entry_t" where
  "public_part e = e\<lparr>private_key := [], private_key_len := 0\<rparr>"

definition same_public :: "ta_state \<Rightarrow> ta_state \<Rightarrow> bool" where
  "same_public s t \<longleftrightarrow>
     g_keys s = g_keys t \<and> g_key_count s = g_key_count t \<and>
     g_session_count s = g_session_count t \<and> g_operation_count s = g_operation_count t \<and>
     g_start_time s = g_start_time t \<and>
     map public_part (g_key_storage s) = map public_part (g_key_storage t)"

section \<open>Concrete inputs\<close>

text \<open>
  Memory holding the given bytes, followed by NULs; a memory reference to it with a
  declared size; a value parameter; an unused slot.
\<close>

definition mem_of :: "byte list \<Rightarrow> cptr" where
  "mem_of xs = (\<lambda>i. if i < length xs then xs ! i else 0)"

definition memref :: "byte list \<Rightarrow> nat \<Rightarrow> TEE_Param" where
  "memref xs n = \<lparr>memref_buffer = mem_of xs, memref_size = n, value_a = 0\<rparr>"

definition value_param :: "32 word \<Rightarrow> TEE_Param" where
  "value_param a = \<lparr>memref_buffer = mem_of [], memref_size = 0, value_a = a\<rparr>"

definition no_param :: TEE_Param where
  "no_param = \<lparr>memref_buffer = mem_of [], memref_size = 0, value_a = 0\<rparr>"

text \<open>
  Well-formed parameters for each command: a request to generate a key of type \<open>ktype\<close>
  under the identifier \<open>name\<close> with a 20-byte output buffer, and so on.
\<close>

definition generate_params :: "byte list \<Rightarrow> 32 word \<Rightarrow> TEE_Params" where
  "generate_params name ktype =
     \<lparr>param0 = memref name (length name), param1 = value_param ktype,
      param2 = memref [] 20, param3 = no_param\<rparr>"

definition sign_params :: "byte list \<Rightarrow> byte list \<Rightarrow> TEE_Params" where
  "sign_params name hash =
     \<lparr>param0 = memref name (length name), param1 = memref hash (length hash),
      param2 = memref [] 72, param3 = no_param\<rparr>"

definition get_public_key_params :: "byte list \<Rightarrow> TEE_Params" where
  "get_public_key_params name =
     \<lparr>param0 = memref name (length name), param1 = memref [] 96,
      param2 = no_param, param3 = no_param\<rparr>"

definition list_keys_params :: TEE_Params where
  "list_keys_params =
     \<lparr>param0 = memref [] 1800, param1 = no_param, param2 = no_param, param3 = no_param\<rparr>"

definition health_params :: TEE_Params where
  "health_params =
     \<lparr>param0 = memref [] 24, param1 = no_param, param2 = no_param, param3 = no_param\<rparr>"

text \<open>
  An environment in which every provider call succeeds.  Its key generator hands out the
  given scalar and coordinates, its digest is a stand-in that returns the first 32 bytes
  of its input, its signature is the hash followed by the key, and the stack under
  \<^verbatim>\<open>hash[32]\<close> holds the byte 170 throughout.  \<open>env0\<close> is such an
  environment at time 1000; \<open>digest_failing_env\<close> differs from it in that the digest
  call reports an error and writes nothing.
\<close>

definition good_env :: "32 word \<Rightarrow> byte list \<Rightarrow> byte list \<Rightarrow> byte list \<Rightarrow> tee_env" where
  "good_env now d x y =
     \<lparr>system_time_seconds = now,
      allocate_transient_object = TEE_SUCCESS,
      generate_key = TEE_SUCCESS,
      attr_private_value = (TEE_SUCCESS, d),
      attr_public_value_x = (TEE_SUCCESS, x),
      attr_public_value_y = (TEE_SUCCESS, y),
      digest_do_final = (\<lambda>bs. (TEE_SUCCESS, take 32 bs)),
      populate_transient_object = TEE_SUCCESS,
      allocate_operation = TEE_SUCCESS,
      set_operation_key = TEE_SUCCESS,
      asymmetric_sign_digest = (\<lambda>k h. (TEE_SUCCESS, h @ k)),
      uninitialised_hash = (\<lambda>i. 170)\<rparr>"

definition env0 :: tee_env where
  "env0 = good_env 1000 (replicate 32 7) (map of_nat [1..<33]) (map of_nat [33..<65])"

definition digest_failing_env :: tee_env where
  "digest_failing_env = env0\<lparr>digest_do_final := (\<lambda>bs. (TEE_ERROR_BAD_PARAMETERS, []))\<rparr>"

text \<open>
  An environment that differs from \<open>env0\<close> in that the read of the Y coordinate reports
  an error.
\<close>

definition coordinate_failing_env :: tee_env where
  "coordinate_failing_env = env0\<lparr>attr_public_value_y := (TEE_ERROR_BAD_PARAMETERS, [])\<rparr>"

text \<open>
  Generating the key \<open>abc\<close> in a fresh instance, and the state this leads to; that state
  with the key deactivated.
\<close>

definition generate_abc :: event where
  "generate_abc = InvokeCommand env0 TA_SUPER_RELAY_CMD_GENERATE_KEY generate_types
     (generate_params [97, 98, 99] 0)"

definition state_abc :: ta_state where
  "state_abc = step_state (TA_CreateEntryPoint env0) generate_abc"

definition inactive_state :: ta_state where
  "inactive_state =
     state_abc\<lparr>g_key_storage := (g_key_storage state_abc)
       [0 := (g_key_storage state_abc ! 0)\<lparr>info :=
              (info (g_key_storage state_abc ! 0))\<lparr>status := SR_KEY_STATUS_INACTIVE\<rparr>\<rparr>]\<rparr>"

text \<open>
  Key \<open>abc\<close>, a signature with it, then key \<open>de\<close>; a state with every private key
  overwritten.
\<close>

definition two_keys :: "event list" where
  "two_keys =
     [generate_abc,
      InvokeCommand env0 TA_SUPER_RELAY_CMD_SIGN_MESSAGE sign_types
        (sign_params [97, 98, 99] (replicate 32 5)),
      InvokeCommand env0 TA_SUPER_RELAY_CMD_GENERATE_KEY generate_types
        (generate_params [100, 101] 0)]"

definition other_secrets :: "ta_state \<Rightarrow> ta_state" where
  "other_secrets s =
     s\<lparr>g_key_storage := map (\<lambda>e. e\<lparr>private_key := replicate 32 9\<rparr>) (g_key_storage s)\<rparr>"

text \<open>
  Sixteen keys named \<open>a\<close> to \<open>p\<close>, and the full store they leave.
\<close>

definition sixteen_generates :: "event list" where
  "sixteen_generates =
     map (\<lambda>n. InvokeCommand env0 TA_SUPER_RELAY_CMD_GENERATE_KEY generate_types
                 (generate_params [of_nat n] 0)) [97..<113]"

definition full_state :: ta_state where
  "full_state = run (TA_CreateEntryPoint env0) sixteen_generates"

text \<open>
  Sixteen requests for the three-byte identifiers \<open>a NUL b\<close> to \<open>a NUL q\<close>, which differ behind
  a NUL.
\<close>

definition nul_generates :: "event list" where
  "nul_generates =
     map (\<lambda>n. InvokeCommand env0 TA_SUPER_RELAY_CMD_GENERATE_KEY generate_types
                 (generate_params [97, 0, of_nat n] 0)) [98..<114]"

text \<open>
  A signature with the key \<open>abc\<close> at a given time; two of them around a session opening.
\<close>

definition sign_abc :: "32 word \<Rightarrow> event" where
  "sign_abc now =
     InvokeCommand (good_env now (replicate 32 7) (map of_nat [1..<33]) (map of_nat [33..<65]))
       TA_SUPER_RELAY_CMD_SIGN_MESSAGE sign_types (sign_params [97, 98, 99] (replicate 32 5))"

definition signs_and_a_session :: "event list" where
  "signs_and_a_session = [sign_abc 1005, OpenSession, sign_abc 1010]"

section \<open>Lemmas\<close>

lemmas sr_consts =
  SR_MAX_KEY_ID_SIZE_def SR_MAX_KEYS_def SR_SECP256K1_PUBLIC_KEY_SIZE_def
  SR_SECP256K1_PRIVATE_KEY_SIZE_def SR_SECP256K1_SIGNATURE_SIZE_def SR_MESSAGE_HASH_SIZE_def
  SR_ETHEREUM_ADDRESS_SIZE_def SR_KEY_TYPE_ECDSA_SECP256K1_def SR_KEY_TYPE_ED25519_def
  SR_KEY_TYPE_MAX_def SR_KEY_STATUS_ACTIVE_def SR_KEY_STATUS_INACTIVE_def
  SR_KEY_STATUS_COMPROMISED_def SR_SUCCESS_def

lemmas tee_results =
  TEE_SUCCESS_def TEE_ERROR_ACCESS_DENIED_def TEE_ERROR_BAD_PARAMETERS_def
  TEE_ERROR_NOT_IMPLEMENTED_def TEE_ERROR_NOT_SUPPORTED_def TEE_ERROR_SHORT_BUFFER_def
  TEE_ERROR_STORAGE_NO_SPACE_def SR_ERROR_KEY_NOT_FOUND_def SR_ERROR_KEY_ALREADY_EXISTS_def

lemmas cmd_ids =
  TA_SUPER_RELAY_CMD_GENERATE_KEY_def TA_SUPER_RELAY_CMD_IMPORT_KEY_def
  TA_SUPER_RELAY_CMD_SIGN_MESSAGE_def TA_SUPER_RELAY_CMD_GET_PUBLIC_KEY_def
  TA_SUPER_RELAY_CMD_DELETE_KEY_def TA_SUPER_RELAY_CMD_LIST_KEYS_def
  TA_SUPER_RELAY_CMD_GET_VERSION_def TA_SUPER_RELAY_CMD_HEALTH_CHECK_def

lemma strncmp_eq_takeWhile:
  "strncmp_eq a b i n \<longleftrightarrow>
     takeWhile (\<lambda>c. c \<noteq> 0) (map a [i..<i + n]) = takeWhile (\<lambda>c. c \<noteq> 0) (map b [i..<i + n])"
proof (induction n arbitrary: i)
  case 0
  then show ?case by simp
next
  case (Suc n)
  have u: "[i..<i + Suc n] = i # [Suc i..<Suc i + n]"
    by (simp add: upt_rec)
  show ?case
    unfolding u using Suc.IH [of "Suc i"] by auto
qed

lemma strncmp_eq_c_string:
  "strncmp_eq a b 0 n \<longleftrightarrow> c_string a n = c_string b n"
  by (simp add: strncmp_eq_takeWhile c_string_def)

lemma all_from_Suc:
  "(\<forall>j. i \<le> j \<and> j < i + Suc n \<longrightarrow> P j) \<longleftrightarrow> (P i \<and> (\<forall>j. Suc i \<le> j \<and> j < Suc i + n \<longrightarrow> P j))"
proof
  assume h: "\<forall>j. i \<le> j \<and> j < i + Suc n \<longrightarrow> P j"
  have "P i" using h by simp
  moreover have "\<forall>j. Suc i \<le> j \<and> j < Suc i + n \<longrightarrow> P j" using h by simp
  ultimately show "P i \<and> (\<forall>j. Suc i \<le> j \<and> j < Suc i + n \<longrightarrow> P j)" by blast
next
  assume h: "P i \<and> (\<forall>j. Suc i \<le> j \<and> j < Suc i + n \<longrightarrow> P j)"
  show "\<forall>j. i \<le> j \<and> j < i + Suc n \<longrightarrow> P j"
  proof (intro allI impI)
    fix j
    assume "i \<le> j \<and> j < i + Suc n"
    then consider "j = i" | "Suc i \<le> j \<and> j < Suc i + n" by linarith
    then show "P j" using h by cases auto
  qed
qed

lemma find_key_loop_None:
  "find_key_loop st kid i n = None \<longleftrightarrow>
     (\<forall>j. i \<le> j \<and> j < i + n \<longrightarrow> stored_key_id (st ! j) \<noteq> c_string kid SR_MAX_KEY_ID_SIZE)"
proof (induction n arbitrary: i)
  case 0
  then show ?case by auto
next
  case (Suc n)
  show ?case
    unfolding all_from_Suc using Suc.IH [of "Suc i"]
    by (simp add: strncmp_eq_c_string stored_key_id_def)
qed

lemma find_key_loop_Some:
  "find_key_loop st kid i n = Some k \<Longrightarrow>
     i \<le> k \<and> k < i + n \<and> stored_key_id (st ! k) = c_string kid SR_MAX_KEY_ID_SIZE
     \<and> (\<forall>j. i \<le> j \<and> j < k \<longrightarrow> stored_key_id (st ! j) \<noteq> c_string kid SR_MAX_KEY_ID_SIZE)"
proof (induction n arbitrary: i)
  case 0
  then show ?case by simp
next
  case (Suc n)
  show ?case
  proof (cases "stored_key_id (st ! i) = c_string kid SR_MAX_KEY_ID_SIZE")
    case True
    with Suc.prems have "k = i"
      by (simp add: strncmp_eq_c_string stored_key_id_def)
    with True show ?thesis by auto
  next
    case False
    with Suc.prems have "find_key_loop st kid (Suc i) n = Some k"
      by (simp add: strncmp_eq_c_string stored_key_id_def)
    from Suc.IH [OF this] have ih: "Suc i \<le> k" "k < Suc i + n"
        "stored_key_id (st ! k) = c_string kid SR_MAX_KEY_ID_SIZE"
        "\<forall>j. Suc i \<le> j \<and> j < k \<longrightarrow> stored_key_id (st ! j) \<noteq> c_string kid SR_MAX_KEY_ID_SIZE"
      by auto
    have "\<forall>j. i \<le> j \<and> j < k \<longrightarrow> stored_key_id (st ! j) \<noteq> c_string kid SR_MAX_KEY_ID_SIZE"
    proof (intro allI impI)
      fix j
      assume "i \<le> j \<and> j < k"
      then consider "j = i" | "Suc i \<le> j \<and> j < k" by linarith
      then show "stored_key_id (st ! j) \<noteq> c_string kid SR_MAX_KEY_ID_SIZE"
        using False ih(4) by cases auto
    qed
    with ih show ?thesis by simp

  qed
qed

lemma find_key_loop_first:
  assumes "i \<le> k" "k < i + n" "stored_key_id (st ! k) = c_string kid SR_MAX_KEY_ID_SIZE"
    and "\<forall>j. i \<le> j \<and> j < k \<longrightarrow> stored_key_id (st ! j) \<noteq> c_string kid SR_MAX_KEY_ID_SIZE"
  shows "find_key_loop st kid i n = Some k"
proof (cases "find_key_loop st kid i n")
  case None
  with assms show ?thesis by (simp add: find_key_loop_None)
next
  case (Some k')
  from find_key_loop_Some [OF this] assms have "k' = k"
    by (metis linorder_neqE_nat)
  with Some show ?thesis by simp
qed

subsection \<open>strncpy\<close>

lemma length_strncpy_bytes [simp]: "length (strncpy_bytes src i n) = n"
  by (induction n arbitrary: i) auto

lemma takeWhile_strncpy_bytes:
  "takeWhile (\<lambda>c. c \<noteq> 0) (strncpy_bytes src i n @ replicate m 0)
     = takeWhile (\<lambda>c. c \<noteq> 0) (map src [i..<i + n])"
proof (induction n arbitrary: i)
  case 0
  then show ?case by (simp add: takeWhile_replicate)
next
  case (Suc n)
  have u: "[i..<i + Suc n] = i # [Suc i..<Suc i + n]"
    by (simp add: upt_rec)
  show ?case
    unfolding u using Suc.IH [of "Suc i"] by (simp add: takeWhile_replicate)
qed

lemma map_nth_upt_take: "n \<le> length xs \<Longrightarrow> map ((!) xs) [0..<n] = take n xs"
  by (rule nth_equalityI) auto

lemma strncpy_bytes_no_nul:
  "0 \<notin> set (map src [i..<i + n]) \<Longrightarrow> strncpy_bytes src i n = map src [i..<i + n]"
proof (induction n arbitrary: i)
  case 0
  then show ?case by simp
next
  case (Suc n)
  have u: "[i..<i + Suc n] = i # [Suc i..<Suc i + n]"
    by (simp add: upt_rec)
  from Suc.prems have "src i \<noteq> 0" "0 \<notin> set (map src [Suc i..<Suc i + n])"
    unfolding u by auto
  with Suc.IH [of "Suc i"] show ?case
    unfolding u by simp
qed

lemma stored_id_array:
  assumes "n < 64"
  shows "(strncpy (zeros 64) kid n)[n := 0] = strncpy_bytes kid 0 n @ replicate (64 - n) 0"
proof -
  have "strncpy (zeros 64) kid n = strncpy_bytes kid 0 n @ replicate (64 - n) 0"
    by (simp add: strncpy_def array_write_def zeros_def)
  moreover have "(strncpy_bytes kid 0 n @ replicate (64 - n) 0)[n := 0]
      = strncpy_bytes kid 0 n @ replicate (64 - n) 0"
    using assms by (simp add: list_update_append list_update_same_conv)
  ultimately show ?thesis by simp
qed

lemma c_string_stored_id_array:
  assumes "n < 64" "m \<le> 64" "n \<le> m"
  shows "c_string (array_ptr ((strncpy (zeros 64) kid n)[n := 0])) m = c_string kid n"
proof -
  let ?K = "strncpy_bytes kid 0 n @ replicate (64 - n) 0"
  have "map (array_ptr ?K) [0..<m] = take m ?K"
    unfolding array_ptr_def using assms by (intro map_nth_upt_take) simp
  also have "\<dots> = strncpy_bytes kid 0 n @ replicate (m - n) 0"
    using assms by simp
  finally show ?thesis
    using assms by (simp add: c_string_def stored_id_array takeWhile_strncpy_bytes)
qed

lemma c_string_string_param:
  assumes "string_param p" "memref_size p < n"
  shows "c_string (memref_buffer p) n = declared_bytes p"
proof -
  let ?k = "memref_size p"
  have "[0..<n] = [0..<?k] @ ?k # [Suc ?k..<n]"
    using assms(2) upt_add_eq_append [of 0 ?k "n - ?k"] by (simp add: upt_conv_Cons)
  then have "map (memref_buffer p) [0..<n]
      = declared_bytes p @ memref_buffer p ?k # map (memref_buffer p) [Suc ?k..<n]"
    by (simp add: declared_bytes_def)
  with assms(1) show ?thesis
    by (auto simp: c_string_def string_param_def takeWhile_append2 takeWhile_tail)
qed

lemma c_string_declared:
  assumes "string_param p"
  shows "c_string (memref_buffer p) (memref_size p) = declared_bytes p"
  using assms by (auto simp: c_string_def string_param_def declared_bytes_def takeWhile_eq_all_conv)

subsection \<open>The paths of cmd_generate_key\<close>

lemma tee_results_distinct [simp]:
  "TEE_ERROR_NOT_IMPLEMENTED \<noteq> TEE_SUCCESS" "TEE_ERROR_NOT_SUPPORTED \<noteq> TEE_SUCCESS"
  "TEE_ERROR_BAD_PARAMETERS \<noteq> TEE_SUCCESS" "TEE_ERROR_STORAGE_NO_SPACE \<noteq> TEE_SUCCESS"
  "TEE_ERROR_SHORT_BUFFER \<noteq> TEE_SUCCESS" "TEE_ERROR_ACCESS_DENIED \<noteq> TEE_SUCCESS"
  "SR_ERROR_KEY_NOT_FOUND \<noteq> TEE_SUCCESS" "SR_ERROR_KEY_ALREADY_EXISTS \<noteq> TEE_SUCCESS"
  by (simp_all add: tee_results)

lemma cmd_generate_key_bad_types:
  "pt \<noteq> generate_types \<Longrightarrow> cmd_generate_key env s pt ps = (TEE_ERROR_BAD_PARAMETERS, NoOutput, s)"
  by (simp add: cmd_generate_key_def generate_types_def)

lemma cmd_generate_key_full:
  "pt = generate_types \<Longrightarrow> SR_MAX_KEYS \<le> g_key_count s \<Longrightarrow>
     cmd_generate_key env s pt ps = (TEE_ERROR_STORAGE_NO_SPACE, NoOutput, s)"
  by (simp add: cmd_generate_key_def generate_types_def)

lemma cmd_generate_key_exists:
  "pt = generate_types \<Longrightarrow> g_key_count s < SR_MAX_KEYS \<Longrightarrow>
   0 < memref_size (param0 ps) \<Longrightarrow> memref_size (param0 ps) < SR_MAX_KEY_ID_SIZE \<Longrightarrow>
   value_a (param1 ps) < SR_KEY_TYPE_MAX \<Longrightarrow>
   find_key_index s (memref_buffer (param0 ps)) \<noteq> None \<Longrightarrow>
     cmd_generate_key env s pt ps = (SR_ERROR_KEY_ALREADY_EXISTS, NoOutput, s)"
  using linorder_not_le [of SR_KEY_TYPE_MAX "value_a (param1 ps)"]
  by (auto simp: cmd_generate_key_def generate_types_def Let_def)

lemma cmd_generate_key_checked:
  assumes "generate_checks s pt ps"
  shows "cmd_generate_key env s pt ps =
     (case keypair_by_type env (value_a (param1 ps))
             (new_key_entry env (memref_buffer (param0 ps)) (memref_size (param0 ps))
                (value_a (param1 ps))) of
        (res, key_entry) \<Rightarrow>
          let s1 = s\<lparr>g_key_storage := (g_key_storage s)[g_key_count s := key_entry]\<rparr> in
          if res \<noteq> TEE_SUCCESS then (res, NoOutput, s1)
          else if memref_size (param2 ps) < SR_ETHEREUM_ADDRESS_SIZE
            then (TEE_ERROR_SHORT_BUFFER, NoOutput, s1)
          else (TEE_SUCCESS,
                Address (take SR_ETHEREUM_ADDRESS_SIZE (ethereum_address (info key_entry))),
                s1\<lparr>g_keys := (g_keys s)[g_key_count s := info key_entry],
                   g_key_count := g_key_count s + 1,
                   g_operation_count := g_operation_count s + 1\<rparr>))"
proof -
  from assms have "\<not> SR_KEY_TYPE_MAX \<le> value_a (param1 ps)"
    by (simp add: generate_checks_def not_le)
  with assms show ?thesis
    by (simp add: generate_checks_def cmd_generate_key_def generate_types_def Let_def
        new_key_entry_def keypair_by_type_def zero_key_entry_def zero_key_info_def
        split: prod.splits)
qed

lemma cmd_generate_key_unchecked:
  assumes "\<not> generate_checks s pt ps"
  shows "\<exists>res. res \<noteq> TEE_SUCCESS \<and> cmd_generate_key env s pt ps = (res, NoOutput, s)"
  using assms
  by (auto simp: generate_checks_def cmd_generate_key_def generate_types_def Let_def not_less)

subsection \<open>Key generation\<close>

lemma length_array_write:
  "off + length src \<le> length dst \<Longrightarrow> length (array_write dst off src) = length dst"
  by (simp add: array_write_def)

lemma length_derive_ethereum_address [simp]:
  "length (derive_ethereum_address env pk) = SR_ETHEREUM_ADDRESS_SIZE"
  by (simp add: derive_ethereum_address_def length_array_write zeros_def sr_consts Let_def
      split: prod.splits)

lemma generate_secp256k1_keypair_frame:
  assumes "generate_secp256k1_keypair env e = (res, ke)"
  shows "key_id ke = key_id e" "key_type ke = key_type e"
    "(info ke)\<lparr>ethereum_address := a\<rparr> = (info e)\<lparr>ethereum_address := a\<rparr>"
  using assms
  by (auto simp: generate_secp256k1_keypair_def get_object_buffer_attribute_def Let_def
      split: if_splits prod.splits)

lemma keypair_by_type_frame:
  assumes "keypair_by_type env t e = (res, ke)"
  shows "key_id ke = key_id e" "key_type ke = key_type e"
    "(info ke)\<lparr>ethereum_address := a\<rparr> = (info e)\<lparr>ethereum_address := a\<rparr>"
  using assms generate_secp256k1_keypair_frame [of env e res ke]
  by (auto simp: keypair_by_type_def split: if_splits)

lemma keypair_by_type_success:
  assumes "keypair_by_type env t e = (TEE_SUCCESS, ke)"
  shows "t = SR_KEY_TYPE_ECDSA_SECP256K1"
    and "public_key ke = array_write (array_write (public_key e) 0
                            (take 32 (snd (attr_public_value_x env)))) 32
                            (take 32 (snd (attr_public_value_y env)))"
    and "public_key_len ke = of_nat (length (take 32 (snd (attr_public_value_x env))))
                             + of_nat (length (take 32 (snd (attr_public_value_y env))))"
    and "ethereum_address (info ke) = derive_ethereum_address env (public_key ke)"
  using assms
  by (auto simp: keypair_by_type_def generate_secp256k1_keypair_def
      get_object_buffer_attribute_def Let_def split: if_splits prod.splits)

subsection \<open>The paths of cmd_sign_message\<close>

lemma cmd_sign_message_unchecked:
  "\<not> sign_checks pt ps \<Longrightarrow>
     \<exists>res. res \<noteq> TEE_SUCCESS \<and> cmd_sign_message env s pt ps = (res, NoOutput, s)"
  by (auto simp: sign_checks_def cmd_sign_message_def sign_types_def Let_def not_le)

lemma cmd_sign_message_not_found:
  "sign_checks pt ps \<Longrightarrow> find_key_index s (memref_buffer (param0 ps)) = None \<Longrightarrow>
     cmd_sign_message env s pt ps = (SR_ERROR_KEY_NOT_FOUND, NoOutput, s)"
  by (simp add: sign_checks_def cmd_sign_message_def sign_types_def Let_def)

lemma cmd_sign_message_inactive:
  "sign_checks pt ps \<Longrightarrow> find_key_index s (memref_buffer (param0 ps)) = Some i \<Longrightarrow>
   status (info (g_key_storage s ! i)) \<noteq> SR_KEY_STATUS_ACTIVE \<Longrightarrow>
     cmd_sign_message env s pt ps = (TEE_ERROR_ACCESS_DENIED, NoOutput, s)"
  by (simp add: sign_checks_def cmd_sign_message_def sign_types_def Let_def)

lemma cmd_sign_message_active:
  assumes "sign_checks pt ps" "find_key_index s (memref_buffer (param0 ps)) = Some i"
    "status (info (g_key_storage s ! i)) = SR_KEY_STATUS_ACTIVE"
  shows "cmd_sign_message env s pt ps =
     (case sign_by_type env (g_key_storage s ! i) (memref_buffer (param1 ps)) of
        (res, result) \<Rightarrow>
          if res = TEE_SUCCESS then
            (res, SignatureResult result,
             s\<lparr>g_key_storage := (g_key_storage s)
                  [i := (g_key_storage s ! i)\<lparr>info := used_info env (info (g_key_storage s ! i))\<rparr>],
               g_keys := (g_keys s)[i := used_info env (info (g_key_storage s ! i))],
               g_operation_count := g_operation_count s + 1\<rparr>)
          else (res, SignatureResult result, s))"
  using assms
  by (simp add: sign_checks_def cmd_sign_message_def sign_types_def Let_def sign_by_type_def
      used_info_def split: prod.splits)

lemma sign_by_type_success:
  "sign_by_type env e h = (TEE_SUCCESS, r) \<Longrightarrow>
     key_type e = SR_KEY_TYPE_ECDSA_SECP256K1 \<and>
     sign_message_ecdsa env e (map h [0..<SR_MESSAGE_HASH_SIZE]) zero_signature_result = (TEE_SUCCESS, r)"
  by (auto simp: sign_by_type_def split: if_splits)

subsection \<open>What one call does to the state\<close>

lemma cmd_generate_key_cases [consumes 1, case_names rejected failed generated]:
  assumes "cmd_generate_key env s pt ps = (res, out, s')"
  obtains
    (rejected) "res \<noteq> TEE_SUCCESS" "out = NoOutput" "s' = s"
  | (failed) ke where "generate_checks s pt ps" "res \<noteq> TEE_SUCCESS" "out = NoOutput"
      "s' = s\<lparr>g_key_storage := (g_key_storage s)[g_key_count s := ke]\<rparr>"
  | (generated) ke where "generate_checks s pt ps"
      "keypair_by_type env (value_a (param1 ps)) (requested_entry env ps) = (TEE_SUCCESS, ke)"
      "SR_ETHEREUM_ADDRESS_SIZE \<le> memref_size (param2 ps)"
      "res = TEE_SUCCESS"
      "out = Address (take SR_ETHEREUM_ADDRESS_SIZE (ethereum_address (info ke)))"
      "s' = generated_state s ke"
proof (cases "generate_checks s pt ps")
  case False
  from cmd_generate_key_unchecked [OF this, of env] assms rejected show ?thesis
    by auto
next
  case True
  obtain r ke where k: "keypair_by_type env (value_a (param1 ps)) (requested_entry env ps) = (r, ke)"
    by (cases "keypair_by_type env (value_a (param1 ps)) (requested_entry env ps)")
  note eq = cmd_generate_key_checked [OF True, of env, folded requested_entry_def, unfolded k]
  show ?thesis
  proof (cases "r = TEE_SUCCESS")
    case False
    with assms eq failed [OF True, of ke] show ?thesis
      by (auto simp: Let_def)
  next
    case ok: True
    show ?thesis
    proof (cases "memref_size (param2 ps) < SR_ETHEREUM_ADDRESS_SIZE")
      case True
      with ok assms eq failed [OF \<open>generate_checks s pt ps\<close>, of ke] show ?thesis
        by (auto simp: Let_def)
    next
      case False
      with ok assms eq k generated [OF \<open>generate_checks s pt ps\<close>, of ke] show ?thesis
        by (auto simp: Let_def generated_state_def)
    qed
  qed
qed

lemma cmd_sign_message_cases [consumes 1, case_names failed signed]:
  assumes "cmd_sign_message env s pt ps = (res, out, s')"
  obtains
    (failed) "res \<noteq> TEE_SUCCESS" "s' = s"
  | (signed) i r where "sign_checks pt ps"
      "find_key_index s (memref_buffer (param0 ps)) = Some i"
      "status (info (g_key_storage s ! i)) = SR_KEY_STATUS_ACTIVE"
      "sign_by_type env (g_key_storage s ! i) (memref_buffer (param1 ps)) = (TEE_SUCCESS, r)"
      "res = TEE_SUCCESS" "out = SignatureResult r" "s' = signed_state env s i"
proof (cases "sign_checks pt ps")
  case False
  from cmd_sign_message_unchecked [OF this, of env s] assms failed show ?thesis
    by auto
next
  case True
  show ?thesis
  proof (cases "find_key_index s (memref_buffer (param0 ps))")
    case None
    from cmd_sign_message_not_found [OF True None, of env] assms failed show ?thesis
      by auto
  next
    case (Some i)
    show ?thesis
    proof (cases "status (info (g_key_storage s ! i)) = SR_KEY_STATUS_ACTIVE")
      case False
      from cmd_sign_message_inactive [OF True Some False, of env] assms failed show ?thesis
        by auto
    next
      case active: True
      obtain r0 r where k:
        "sign_by_type env (g_key_storage s ! i) (memref_buffer (param1 ps)) = (r0, r)"
        by (cases "sign_by_type env (g_key_storage s ! i) (memref_buffer (param1 ps))")
      note eq = cmd_sign_message_active [OF True Some active, of env, unfolded k]
      show ?thesis
      proof (cases "r0 = TEE_SUCCESS")
        case False
        with assms eq failed show ?thesis by auto
      next
        case ok: True
        with assms eq k signed [OF True Some active, of r] show ?thesis
          by (auto simp: signed_state_def)
      qed
    qed
  qed
qed

lemma cmd_get_public_key_state:
  "cmd_get_public_key s pt ps = (res, out, s') \<Longrightarrow>
     s' = s \<or> s' = s\<lparr>g_operation_count := g_operation_count s + 1\<rparr>"
  by (auto simp: cmd_get_public_key_def Let_def split: if_splits option.splits)

lemma cmd_list_keys_state:
  "cmd_list_keys s pt ps = (res, out, s') \<Longrightarrow>
     s' = s \<or> s' = s\<lparr>g_operation_count := g_operation_count s + 1\<rparr>"
  by (auto simp: cmd_list_keys_def Let_def split: if_splits)

lemma cmd_get_version_state: "cmd_get_version s pt ps = (res, out, s') \<Longrightarrow> s' = s"
  by (auto simp: cmd_get_version_def Let_def split: if_splits)

lemma cmd_health_check_state: "cmd_health_check env s pt ps = (res, out, s') \<Longrightarrow> s' = s"
  by (auto simp: cmd_health_check_def Let_def split: if_splits)

lemma step_cases [consumes 1, case_names counters failed generated signed]:
  assumes "step s ev = (res, out, s')"
  obtains
    (counters) c n where "s' = s\<lparr>g_session_count := c, g_operation_count := n\<rparr>"
      "command_of ev \<noteq> None \<longrightarrow> c = g_session_count s"
      "command_of ev = Some TA_SUPER_RELAY_CMD_GENERATE_KEY \<longrightarrow> res \<noteq> TEE_SUCCESS"
      "command_of ev = Some TA_SUPER_RELAY_CMD_SIGN_MESSAGE \<longrightarrow> res \<noteq> TEE_SUCCESS"
  | (failed) env pt ps ke where
      "ev = InvokeCommand env TA_SUPER_RELAY_CMD_GENERATE_KEY pt ps"
      "generate_checks s pt ps" "res \<noteq> TEE_SUCCESS"
      "s' = s\<lparr>g_key_storage := (g_key_storage s)[g_key_count s := ke]\<rparr>"
  | (generated) env pt ps ke where
      "ev = InvokeCommand env TA_SUPER_RELAY_CMD_GENERATE_KEY pt ps"
      "generate_checks s pt ps"
      "keypair_by_type env (value_a (param1 ps)) (requested_entry env ps) = (TEE_SUCCESS, ke)"
      "SR_ETHEREUM_ADDRESS_SIZE \<le> memref_size (param2 ps)"
      "res = TEE_SUCCESS"
      "out = Address (take SR_ETHEREUM_ADDRESS_SIZE (ethereum_address (info ke)))"
      "s' = generated_state s ke"
  | (signed) env pt ps i r where
      "ev = InvokeCommand env TA_SUPER_RELAY_CMD_SIGN_MESSAGE pt ps"
      "sign_checks pt ps"
      "find_key_index s (memref_buffer (param0 ps)) = Some i"
      "status (info (g_key_storage s ! i)) = SR_KEY_STATUS_ACTIVE"
      "sign_by_type env (g_key_storage s ! i) (memref_buffer (param1 ps)) = (TEE_SUCCESS, r)"
      "res = TEE_SUCCESS" "out = SignatureResult r" "s' = signed_state env s i"
proof (cases ev)
  case OpenSession
  with assms have "s' = s\<lparr>g_session_count := g_session_count s + 1,
      g_operation_count := g_operation_count s\<rparr>"
    by (auto simp: TA_OpenSessionEntryPoint_def)
  then show ?thesis
    by (rule counters) (simp_all add: OpenSession)
next
  case CloseSession
  with assms have "s' = s\<lparr>g_session_count := g_session_count s',
      g_operation_count := g_operation_count s\<rparr>"
    by (auto simp: TA_CloseSessionEntryPoint_def)
  then show ?thesis
    by (rule counters) (simp_all add: CloseSession)
next
  case (InvokeCommand env cmd_id pt ps)
  note ev = this
  have same: "s' = s \<Longrightarrow> s' = s\<lparr>g_session_count := g_session_count s,
      g_operation_count := g_operation_count s\<rparr>"
    by simp
  have bump: "s' = s\<lparr>g_operation_count := g_operation_count s + 1\<rparr> \<Longrightarrow>
      s' = s\<lparr>g_session_count := g_session_count s, g_operation_count := g_operation_count s + 1\<rparr>"
    by simp
  consider (gen) "cmd_id = TA_SUPER_RELAY_CMD_GENERATE_KEY"
    | (sign) "cmd_id = TA_SUPER_RELAY_CMD_SIGN_MESSAGE"
    | (other) "cmd_id \<noteq> TA_SUPER_RELAY_CMD_GENERATE_KEY" "cmd_id \<noteq> TA_SUPER_RELAY_CMD_SIGN_MESSAGE"
    by blast
  then show ?thesis
  proof cases
    case gen
    with assms ev have g: "cmd_generate_key env s pt ps = (res, out, s')"
      by (simp add: TA_InvokeCommandEntryPoint_def)
    from g show ?thesis
    proof (cases rule: cmd_generate_key_cases)
      case rejected
      show ?thesis
        by (rule counters [OF same]) (simp_all add: rejected ev gen cmd_ids)
    next
      case (failed ke)
      with ev gen that(2) show ?thesis by blast
    next
      case (generated ke)
      with ev gen that(3) show ?thesis by blast
    qed
  next
    case sign
    with assms ev have g: "cmd_sign_message env s pt ps = (res, out, s')"
      by (simp add: TA_InvokeCommandEntryPoint_def cmd_ids)
    from g show ?thesis
    proof (cases rule: cmd_sign_message_cases)
      case failed
      show ?thesis
        by (rule counters [OF same]) (simp_all add: failed ev sign cmd_ids)
    next
      case (signed i r)
      with ev sign that(4) show ?thesis by blast
    qed
  next
    case other
    with assms ev have "s' = s \<or> s' = s\<lparr>g_operation_count := g_operation_count s + 1\<rparr>"
      by (auto simp: TA_InvokeCommandEntryPoint_def
          dest: cmd_get_public_key_state cmd_list_keys_state cmd_get_version_state
            cmd_health_check_state split: if_splits)
    then show ?thesis
    proof
      assume "s' = s"
      then show ?thesis
        by (intro counters [OF same]) (simp_all add: ev other)
    next
      assume "s' = s\<lparr>g_operation_count := g_operation_count s + 1\<rparr>"
      then show ?thesis
        by (intro counters [OF bump]) (simp_all add: ev other)
    qed
  qed
qed

lemma run_Nil [simp]: "run s [] = s"
  by (simp add: run_def)

lemma run_Cons [simp]: "run s (ev # evs) = run (step_state s ev) evs"
  by (simp add: run_def)

lemma run_append: "run s (evs @ evs') = run (run s evs) evs'"
  by (simp add: run_def)

lemma step_state_session:
  "g_session_count (step_state s ev) =
     (case ev of OpenSession \<Rightarrow> g_session_count s + 1
      | CloseSession \<Rightarrow> (if 0 < g_session_count s then g_session_count s - 1 else g_session_count s)
      | InvokeCommand env c pt ps \<Rightarrow> g_session_count s)"
proof (cases ev)
  case OpenSession
  then show ?thesis by (simp add: step_state_def TA_OpenSessionEntryPoint_def)
next
  case CloseSession
  then show ?thesis by (simp add: step_state_def TA_CloseSessionEntryPoint_def)
next
  case (InvokeCommand env c pt ps)
  obtain res out s' where st: "step s ev = (res, out, s')"
    by (cases "step s ev")
  from st have "g_session_count s' = g_session_count s"
    using InvokeCommand
    by (cases rule: step_cases) (simp_all add: generated_state_def signed_state_def)
  with st InvokeCommand show ?thesis by (simp add: step_state_def)
qed

lemma session_model_le: "session_model n evs \<le> n + opens evs"
  by (induction n evs rule: session_model.induct) auto

lemma session_count_run:
  assumes "g_session_count s = of_nat n" "n + opens evs < 2 ^ 32"
  shows "g_session_count (run s evs) = of_nat (session_model n evs)"
  using assms
proof (induction n evs arbitrary: s rule: session_model.induct)
  case (1 n)
  then show ?case by simp
next
  case (2 n evs)
  then show ?case by (simp add: step_state_session)
next
  case (3 n evs)
  have "g_session_count (step_state s CloseSession) = of_nat (n - 1)"
  proof (cases "n = 0")
    case True
    with 3 show ?thesis by (simp add: step_state_session)
  next
    case False
    with 3 have "0 < g_session_count s"
      by (simp add: word_less_nat_alt unat_of_nat)
    with False 3 show ?thesis by (simp add: step_state_session of_nat_diff)
  qed
  with 3 show ?case by simp
next
  case (4 n v va vb vc evs)
  then show ?case by (simp add: step_state_session)
qed

lemma session_model_matched:
  "closes_matched n evs \<Longrightarrow> session_model n evs = n + opens evs - closes evs \<and> closes evs \<le> n + opens evs"
  by (induction n evs rule: session_model.induct) auto

lemma reported_sessions_health:
  assumes "pt = output_only_types" "sizeof_sr_health_result_t \<le> memref_size (param0 ps)"
  shows "reported_sessions (cmd_health_check env s pt ps) = Some (g_session_count s)"
  using assms by (simp add: cmd_health_check_def output_only_types_def not_less [symmetric])

lemma created_sessions [simp]: "g_session_count (TA_CreateEntryPoint env) = 0"
  by (simp add: TA_CreateEntryPoint_def)

lemma find_key_index_None:
  "find_key_index s kid = None \<longleftrightarrow>
     (\<forall>j < g_key_count s. stored_key_id (g_key_storage s ! j) \<noteq> c_string kid SR_MAX_KEY_ID_SIZE)"
  by (simp add: find_key_index_def find_key_loop_None)

lemma find_key_index_first:
  assumes "k < g_key_count s" "stored_key_id (g_key_storage s ! k) = c_string kid SR_MAX_KEY_ID_SIZE"
    and "\<forall>j < k. stored_key_id (g_key_storage s ! j) \<noteq> c_string kid SR_MAX_KEY_ID_SIZE"
  shows "find_key_index s kid = Some k"
  unfolding find_key_index_def using assms by (intro find_key_loop_first) auto

lemma find_key_index_Some:
  assumes "find_key_index s kid = Some k"
  shows "k < g_key_count s" "stored_key_id (g_key_storage s ! k) = c_string kid SR_MAX_KEY_ID_SIZE"
    "\<forall>j < k. stored_key_id (g_key_storage s ! j) \<noteq> c_string kid SR_MAX_KEY_ID_SIZE"
  using find_key_loop_Some [OF assms [unfolded find_key_index_def]] by auto

lemma sign_bad_hash_length:
  assumes "memref_size (param1 ps) \<noteq> SR_MESSAGE_HASH_SIZE"
  shows "cmd_sign_message env s pt ps = (TEE_ERROR_BAD_PARAMETERS, NoOutput, s)"
  using assms by (simp add: cmd_sign_message_def Let_def)

lemma public_key_requested_entry [simp]:
  "public_key (requested_entry env ps) = zeros SR_SECP256K1_PUBLIC_KEY_SIZE"
  by (simp add: requested_entry_def new_key_entry_def zero_key_entry_def Let_def)

lemma array_write_coordinates:
  assumes "length x = 32" "length y = 32"
  shows "array_write (array_write (zeros 64) 0 (take 32 x)) 32 (take 32 y) = x @ y"
  using assms by (simp add: array_write_def zeros_def)

lemma derive_ethereum_address_success:
  assumes "digest_do_final env (take 64 pk) = (TEE_SUCCESS, h)" "length h = 32"
  shows "derive_ethereum_address env pk = take 20 (drop 12 h)"
  using assms by (simp add: derive_ethereum_address_def array_write_def zeros_def sr_consts)

lemma derive_ethereum_address_failure:
  assumes "fst (digest_do_final env (take 64 pk)) \<noteq> TEE_SUCCESS"
  shows "derive_ethereum_address env pk = zeros SR_ETHEREUM_ADDRESS_SIZE"
  using assms by (auto simp: derive_ethereum_address_def split: prod.splits)

lemma generated_state_slot:
  "g_key_count s < length (g_key_storage s) \<Longrightarrow>
     g_key_storage (generated_state s ke) ! g_key_count s = ke"
  by (simp add: generated_state_def)

subsection \<open>Invariants\<close>

lemma step_state_eq: "step s ev = (res, out, s') \<Longrightarrow> step_state s ev = s'"
  by (simp add: step_state_def)

lemma arrays_ok_created: "arrays_ok (TA_CreateEntryPoint env)"
  by (simp add: arrays_ok_def TA_CreateEntryPoint_def)

lemma arrays_ok_step:
  assumes "arrays_ok s"
  shows "arrays_ok (step_state s ev)"
proof -
  obtain res out s' where st: "step s ev = (res, out, s')"
    by (cases "step s ev")
  from st have "arrays_ok s'"
    using assms
    by (cases rule: step_cases)
      (auto simp: arrays_ok_def generated_state_def signed_state_def generate_checks_def)
  with st show ?thesis by (simp add: step_state_eq)
qed

lemma key_count_step: "g_key_count s \<le> g_key_count (step_state s ev)"
proof -
  obtain res out s' where st: "step s ev = (res, out, s')"
    by (cases "step s ev")
  from st have "g_key_count s \<le> g_key_count s'"
    by (cases rule: step_cases) (auto simp: generated_state_def signed_state_def)
  with st show ?thesis by (simp add: step_state_eq)
qed

lemma fixed_part_step:
  assumes "j < g_key_count s"
  shows "fixed_part (g_key_storage (step_state s ev) ! j) = fixed_part (g_key_storage s ! j)"
proof -
  obtain res out s' where st: "step s ev = (res, out, s')"
    by (cases "step s ev")
  from st have "fixed_part (g_key_storage s' ! j) = fixed_part (g_key_storage s ! j)"
  proof (cases rule: step_cases)
    case (counters c n)
    then show ?thesis by simp
  next
    case (failed env pt ps ke)
    with assms show ?thesis by simp
  next
    case (generated env pt ps ke)
    with assms show ?thesis by (simp add: generated_state_def)
  next
    case (signed env pt ps i r)
    show ?thesis
    proof (cases "j = i")
      case True
      show ?thesis
      proof (cases "i < length (g_key_storage s)")
        case True
        with \<open>j = i\<close> signed(8) show ?thesis
          by (simp add: signed_state_def fixed_part_def used_info_def)
      next
        case False
        with \<open>j = i\<close> signed(8) show ?thesis
          by (simp add: signed_state_def list_update_beyond)
      qed
    next
      case False
      with signed(8) show ?thesis by (simp add: signed_state_def)
    qed
  qed
  with st show ?thesis by (simp add: step_state_eq)
qed

lemma mirrored_created: "mirrored (TA_CreateEntryPoint env)"
  by (simp add: mirrored_def TA_CreateEntryPoint_def)

lemma mirrored_step:
  assumes "arrays_ok s" "mirrored s"
  shows "mirrored (step_state s ev)"
proof -
  obtain res out s' where st: "step s ev = (res, out, s')"
    by (cases "step s ev")
  from st have "mirrored s'"
  proof (cases rule: step_cases)
    case (counters c n)
    with assms show ?thesis by (simp add: mirrored_def)
  next
    case (failed env pt ps ke)
    with assms show ?thesis by (simp add: mirrored_def)
  next
    case (generated env pt ps ke)
    from generated(2) assms(1) have "g_key_count s < length (g_key_storage s)"
      "g_key_count s < length (g_keys s)"
      by (simp_all add: generate_checks_def arrays_ok_def)
    with generated(7) assms(2) show ?thesis
      by (auto simp: mirrored_def generated_state_def nth_list_update less_Suc_eq)
  next
    case (signed env pt ps i r)
    from find_key_index_Some(1) [OF signed(3)] assms(1)
    have "i < length (g_key_storage s)" "i < length (g_keys s)"
      by (simp_all add: arrays_ok_def)
    with signed(8) assms(2) show ?thesis
      by (auto simp: mirrored_def signed_state_def nth_list_update)
  qed
  with st show ?thesis by (simp add: step_state_eq)
qed

lemma key_type_requested_entry [simp]:
  "key_type (requested_entry env ps) = value_a (param1 ps)"
  by (simp add: requested_entry_def new_key_entry_def Let_def)

lemma all_ecdsa_created: "all_ecdsa (TA_CreateEntryPoint env)"
  by (simp add: all_ecdsa_def TA_CreateEntryPoint_def)

lemma all_ecdsa_step:
  assumes "arrays_ok s" "all_ecdsa s"
  shows "all_ecdsa (step_state s ev)"
proof -
  obtain res out s' where st: "step s ev = (res, out, s')"
    by (cases "step s ev")
  from st have "all_ecdsa s'"
  proof (cases rule: step_cases)
    case (counters c n)
    with assms show ?thesis by (simp add: all_ecdsa_def)
  next
    case (failed env pt ps ke)
    with assms show ?thesis by (simp add: all_ecdsa_def)
  next
    case (generated env pt ps ke)
    from generated(2) assms(1) have "g_key_count s < length (g_key_storage s)"
      by (simp add: generate_checks_def arrays_ok_def)
    moreover have "key_type ke = SR_KEY_TYPE_ECDSA_SECP256K1"
      using keypair_by_type_success(1) [OF generated(3)] keypair_by_type_frame(2) [OF generated(3)]
      by simp
    ultimately show ?thesis
      using generated(7) assms(2)
      by (auto simp: all_ecdsa_def generated_state_def nth_list_update less_Suc_eq)
  next
    case (signed env pt ps i r)
    from find_key_index_Some(1) [OF signed(3)] assms(1)
    have "i < length (g_key_storage s)"
      by (simp add: arrays_ok_def)
    with signed(8) assms(2) show ?thesis
      by (auto simp: all_ecdsa_def signed_state_def nth_list_update)
  qed
  with st show ?thesis by (simp add: step_state_eq)
qed

lemma reachable_invariants:
  assumes "reachable s"
  shows "arrays_ok s" "mirrored s" "all_ecdsa s"
  using assms
  by (induction rule: reachable.induct)
    (simp_all add: arrays_ok_created mirrored_created all_ecdsa_created
      arrays_ok_step mirrored_step all_ecdsa_step)

lemma reachable_run: "reachable s \<Longrightarrow> reachable (run s evs)"
  by (induction evs arbitrary: s) (simp_all add: reachable.stepped)

lemma reachable_state_abc: "reachable state_abc"
  unfolding state_abc_def by (intro reachable.intros)

subsection \<open>Filling the store\<close>

lemma keypair_by_type_provider_ok:
  assumes "provider_ok env"
  shows "fst (keypair_by_type env SR_KEY_TYPE_ECDSA_SECP256K1 e) = TEE_SUCCESS"
  using assms
  by (auto simp: provider_ok_def keypair_by_type_def generate_secp256k1_keypair_def
      get_object_buffer_attribute_def Let_def split: prod.splits)

lemma key_id_requested_entry:
  "key_id (requested_entry env ps) =
     (strncpy (zeros 64) (memref_buffer (param0 ps)) (memref_size (param0 ps)))
       [memref_size (param0 ps) := 0]"
  by (simp add: requested_entry_def new_key_entry_def Let_def sr_consts)

lemma stored_key_id_generated:
  assumes "keypair_by_type env t (requested_entry env ps) = (res, ke)"
    and "memref_size (param0 ps) < SR_MAX_KEY_ID_SIZE"
  shows "stored_key_id ke = c_string (memref_buffer (param0 ps)) (memref_size (param0 ps))"
proof -
  have "key_id ke = key_id (requested_entry env ps)"
    using keypair_by_type_frame(1) [OF assms(1)] .
  with assms(2) show ?thesis
    by (simp add: stored_key_id_def key_id_requested_entry c_string_stored_id_array sr_consts)
qed

lemma set_live_ids:
  assumes "g_key_count s \<le> length (g_key_storage s)"
  shows "set (live_ids s) = (\<lambda>j. stored_key_id (g_key_storage s ! j)) ` {0..<g_key_count s}"
proof -
  have "set (take (g_key_count s) (g_key_storage s)) = (!) (g_key_storage s) ` {0..<g_key_count s}"
    using nth_image [OF assms] by simp
  then show ?thesis
    by (simp add: live_ids_def image_image)
qed

lemma find_key_index_not_live:
  assumes "g_key_count s \<le> length (g_key_storage s)"
  shows "find_key_index s kid = None \<longleftrightarrow> c_string kid SR_MAX_KEY_ID_SIZE \<notin> set (live_ids s)"
  unfolding find_key_index_None set_live_ids [OF assms] by force

lemma live_ids_generated:
  assumes "g_key_count s < length (g_key_storage s)"
  shows "live_ids (generated_state s ke) = live_ids s @ [stored_key_id ke]"
  using assms by (simp add: live_ids_def generated_state_def take_Suc_conv_app_nth)

lemma valid_generate_step:
  assumes "arrays_ok s" "g_key_count s < SR_MAX_KEYS" "valid_generate ev"
    and "event_key_id ev \<notin> set (live_ids s)"
  shows "fst (step s ev) = TEE_SUCCESS"
    and "g_key_count (step_state s ev) = Suc (g_key_count s)"
    and "live_ids (step_state s ev) = live_ids s @ [event_key_id ev]"
proof -
  from assms(3) obtain env ps where ev:
    "ev = InvokeCommand env TA_SUPER_RELAY_CMD_GENERATE_KEY generate_types ps"
    and len: "0 < memref_size (param0 ps)" "memref_size (param0 ps) < SR_MAX_KEY_ID_SIZE"
    and str: "string_param (param0 ps)"
    and ty: "value_a (param1 ps) = SR_KEY_TYPE_ECDSA_SECP256K1"
    and out: "SR_ETHEREUM_ADDRESS_SIZE \<le> memref_size (param2 ps)"
    and prov: "provider_ok env"
    by (cases ev) auto
  have cs: "c_string (memref_buffer (param0 ps)) SR_MAX_KEY_ID_SIZE = declared_bytes (param0 ps)"
    using str len by (intro c_string_string_param)
  have le: "g_key_count s < length (g_key_storage s)"
    using assms(1,2) by (simp add: arrays_ok_def)
  have "find_key_index s (memref_buffer (param0 ps)) = None"
    using assms(4) le cs ev by (simp add: find_key_index_not_live)
  with assms(2) len ty have checks: "generate_checks s generate_types ps"
    by (simp add: generate_checks_def sr_consts)
  obtain ke where k:
    "keypair_by_type env (value_a (param1 ps)) (requested_entry env ps) = (TEE_SUCCESS, ke)"
    using keypair_by_type_provider_ok [OF prov, of "requested_entry env ps"] ty
    by (cases "keypair_by_type env (value_a (param1 ps)) (requested_entry env ps)") auto
  have eq: "step s ev = (TEE_SUCCESS,
      Address (take SR_ETHEREUM_ADDRESS_SIZE (ethereum_address (info ke))), generated_state s ke)"
    using cmd_generate_key_checked [OF checks, of env] k out ev
    by (simp add: TA_InvokeCommandEntryPoint_def requested_entry_def generated_state_def
        not_less [symmetric])
  show "fst (step s ev) = TEE_SUCCESS"
    by (simp add: eq)
  show "g_key_count (step_state s ev) = Suc (g_key_count s)"
    by (simp add: step_state_def eq generated_state_def)
  have "stored_key_id ke = declared_bytes (param0 ps)"
    using stored_key_id_generated [OF k len(2)] str by (simp add: c_string_declared)
  moreover have "event_key_id ev = declared_bytes (param0 ps)"
    using ev by simp
  ultimately show "live_ids (step_state s ev) = live_ids s @ [event_key_id ev]"
    using le by (simp add: step_state_def eq live_ids_generated)
qed

lemma run_valid_generates:
  assumes "arrays_ok s" "g_key_count s + length evs \<le> SR_MAX_KEYS"
    and "list_all valid_generate evs" "distinct (map event_key_id evs)"
    and "set (map event_key_id evs) \<inter> set (live_ids s) = {}"
  shows "results s evs = replicate (length evs) TEE_SUCCESS
     \<and> g_key_count (run s evs) = g_key_count s + length evs
     \<and> live_ids (run s evs) = live_ids s @ map event_key_id evs"
  using assms
proof (induction evs arbitrary: s)
  case Nil
  then show ?case by simp
next
  case (Cons ev evs)
  from Cons.prems have fresh: "event_key_id ev \<notin> set (live_ids s)"
    and room: "g_key_count s < SR_MAX_KEYS" and v: "valid_generate ev"
    by auto
  note st = valid_generate_step [OF Cons.prems(1) room v fresh]
  have "results (step_state s ev) evs = replicate (length evs) TEE_SUCCESS
     \<and> g_key_count (run (step_state s ev) evs) = g_key_count (step_state s ev) + length evs
     \<and> live_ids (run (step_state s ev) evs) = live_ids (step_state s ev) @ map event_key_id evs"
    using Cons.prems st(2,3) by (intro Cons.IH arrays_ok_step) auto
  with st show ?case by simp
qed

lemma live_ids_created [simp]: "live_ids (TA_CreateEntryPoint env) = []"
  by (simp add: live_ids_def TA_CreateEntryPoint_def)

lemma key_count_created [simp]: "g_key_count (TA_CreateEntryPoint env) = 0"
  by (simp add: TA_CreateEntryPoint_def)

lemma sixteen_generates_valid:
  "length sixteen_generates = SR_MAX_KEYS" "list_all valid_generate sixteen_generates"
  "distinct (map event_key_id sixteen_generates)"
  by code_simp+

lemma full_state_facts:
  "g_key_count full_state = SR_MAX_KEYS"
  "live_ids full_state = map event_key_id sixteen_generates"
  using run_valid_generates [OF arrays_ok_created [of env0], of sixteen_generates]
    sixteen_generates_valid
  by (simp_all add: full_state_def)

subsection \<open>Listing\<close>

lemma info_key_id_requested_entry:
  "info_key_id (info (requested_entry env ps)) =
     strncpy (zeros 64) (array_ptr (key_id (requested_entry env ps))) 63"
  by (simp add: requested_entry_def new_key_entry_def Let_def sr_consts zero_key_info_def)

lemma c_string_array_ptr:
  "n \<le> length xs \<Longrightarrow> c_string (array_ptr xs) n = takeWhile (\<lambda>b. b \<noteq> 0) (take n xs)"
  by (simp add: c_string_def array_ptr_def map_nth_upt_take)

lemma info_id_strncpy:
  "info_id (i\<lparr>info_key_id := strncpy (zeros 64) p 63\<rparr>) = c_string p 63"
proof -
  have "strncpy (zeros 64) p 63 = strncpy_bytes p 0 63 @ replicate 1 0"
    by (simp add: strncpy_def array_write_def zeros_def)
  moreover have "c_string (array_ptr (strncpy_bytes p 0 63 @ replicate 1 0)) 64
      = takeWhile (\<lambda>b. b \<noteq> 0) (strncpy_bytes p 0 63 @ replicate 1 0)"
    by (subst c_string_array_ptr) simp_all
  ultimately show ?thesis
    using takeWhile_strncpy_bytes [of p 0 63 1]
    by (simp add: info_id_def sr_consts c_string_def)
qed

lemma info_id_generated:
  assumes "keypair_by_type env t (requested_entry env ps) = (res, ke)"
    and "memref_size (param0 ps) < SR_MAX_KEY_ID_SIZE"
  shows "info_id (info ke) = c_string (memref_buffer (param0 ps)) (memref_size (param0 ps))"
proof -
  have "info_key_id ((info ke)\<lparr>ethereum_address := []\<rparr>)
      = info_key_id ((info (requested_entry env ps))\<lparr>ethereum_address := []\<rparr>)"
    using keypair_by_type_frame(3) [OF assms(1), of "[]"] by simp
  then have "info_key_id (info ke) = strncpy (zeros 64) (array_ptr (key_id (requested_entry env ps))) 63"
    by (simp add: info_key_id_requested_entry)
  then have "info_id (info ke) = c_string (array_ptr (key_id (requested_entry env ps))) 63"
    using info_id_strncpy [where i = "info ke" and p = "array_ptr (key_id (requested_entry env ps))"]
    by (simp add: info_id_def)
  also have "\<dots> = c_string (memref_buffer (param0 ps)) (memref_size (param0 ps))"
    using assms(2) by (simp add: key_id_requested_entry c_string_stored_id_array sr_consts)
  finally show ?thesis .
qed

lemma info_id_used_info [simp]: "info_id (used_info env i) = info_id i"
  by (simp add: info_id_def used_info_def)

lemma listed_ids_step:
  assumes "arrays_ok s" "mirrored s"
  shows "listed_ids (step_state s ev) = listed_ids s @ created_ids s [ev]"
proof -
  obtain res out s' where st: "step s ev = (res, out, s')"
    by (cases "step s ev")
  from st have "listed_ids s' = listed_ids s @ created_ids s [ev]"
  proof (cases rule: step_cases)
    case (counters c n)
    with st show ?thesis
      by (cases ev) (simp_all add: listed_ids_def)
  next
    case (failed env pt ps ke)
    with st show ?thesis by (simp add: listed_ids_def)
  next
    case (generated env pt ps ke)
    have lt: "g_key_count s < length (g_keys s)"
      using generated(2) assms(1) by (simp add: generate_checks_def arrays_ok_def)
    have "info_id (info ke) = c_string (memref_buffer (param0 ps)) (memref_size (param0 ps))"
      using generated(2,3) by (intro info_id_generated) (simp_all add: generate_checks_def)
    with generated st lt show ?thesis
      by (simp add: listed_ids_def generated_state_def take_Suc_conv_app_nth)
  next
    case (signed env pt ps i r)
    have lt: "i < g_key_count s"
      using find_key_index_Some(1) [OF signed(3)] .
    then have m: "info (g_key_storage s ! i) = g_keys s ! i"
      using assms(2) by (simp add: mirrored_def)
    have "i < length (g_keys s)"
      using lt assms(1) by (simp add: arrays_ok_def)
    then have "info_id (g_keys s ! i) = map info_id (g_keys s) ! i"
      by simp
    then have "map info_id ((g_keys s)[i := used_info env (info (g_key_storage s ! i))])
        = map info_id (g_keys s)"
      unfolding m map_update info_id_used_info by (simp only: list_update_id)
    then have "listed_ids s' = listed_ids s"
      using signed(8) by (simp add: listed_ids_def signed_state_def take_map [symmetric])
    with signed st show ?thesis by (simp add: cmd_ids)
  qed
  with st show ?thesis by (simp add: step_state_eq)
qed

lemma created_ids_Cons: "created_ids s (ev # evs) = created_ids s [ev] @ created_ids (step_state s ev) evs"
  by simp

lemma listed_ids_run:
  assumes "arrays_ok s" "mirrored s"
  shows "listed_ids (run s evs) = listed_ids s @ created_ids s evs"
  using assms
proof (induction evs arbitrary: s)
  case Nil
  then show ?case by simp
next
  case (Cons ev evs)
  have "listed_ids (run (step_state s ev) evs)
      = listed_ids (step_state s ev) @ created_ids (step_state s ev) evs"
    using Cons.prems by (intro Cons.IH arrays_ok_step mirrored_step)
  then show ?case
    using listed_ids_step [OF Cons.prems, of ev] created_ids_Cons [of s ev evs]
    by (simp del: created_ids.simps)
qed

lemma cmd_list_keys_ok:
  assumes "pt = output_only_types" "sizeof_sr_key_list_result_t \<le> memref_size (param0 ps)"
  shows "cmd_list_keys s pt ps =
     (TEE_SUCCESS,
      KeyListResult \<lparr>key_count = g_key_count s,
        keys = array_write (replicate SR_MAX_KEYS zero_key_info) 0 (take (g_key_count s) (g_keys s))\<rparr>,
      s\<lparr>g_operation_count := g_operation_count s + 1\<rparr>)"
  using assms by (simp add: cmd_list_keys_def output_only_types_def not_less [symmetric])

lemma listed_cmd_list_keys:
  assumes "pt = output_only_types" "sizeof_sr_key_list_result_t \<le> memref_size (param0 ps)"
    and "g_key_count s \<le> length (g_keys s)"
  shows "listed (cmd_list_keys s pt ps) = take (g_key_count s) (g_keys s)"
  using assms by (simp add: cmd_list_keys_ok array_write_def)

lemma take_mirrored:
  assumes "arrays_ok s" "mirrored s"
  shows "take (g_key_count s) (g_keys s) = map info (take (g_key_count s) (g_key_storage s))"
  using assms by (intro nth_equalityI) (simp_all add: arrays_ok_def mirrored_def)

subsection \<open>Lookup\<close>

text \<open>
  The comparison does not stop at the declared length: when the byte behind the caller's
  buffer is not NUL, the identifier \<open>abc\<close> of declared length 3 is not found although a
  record carries it.
\<close>

lemma key_lookup_reads_past_declared_length:
  "declared_bytes (memref [97, 98, 99, 88] 3) = [97, 98, 99]
   \<and> stored_key_id (g_key_storage state_abc ! 0) = [97, 98, 99]
   \<and> find_key_index state_abc (memref_buffer (memref [97, 98, 99, 88] 3)) = None"
  by code_simp

subsection \<open>Live records stay as they are\<close>

lemma fixed_part_fields:
  "key_id (fixed_part e) = key_id e" "public_key (fixed_part e) = public_key e"
  "public_key_len (fixed_part e) = public_key_len e"
  "ethereum_address (info (fixed_part e)) = ethereum_address (info e)"
  "status (info (fixed_part e)) = status (info e)"
  "created_time (info (fixed_part e)) = created_time (info e)"
  "key_type (fixed_part e) = key_type e"
  by (simp_all add: fixed_part_def)

lemma fixed_part_run:
  assumes "j < g_key_count s"
  shows "fixed_part (g_key_storage (run s evs) ! j) = fixed_part (g_key_storage s ! j)"
  using assms
proof (induction evs arbitrary: s)
  case Nil
  then show ?case by simp
next
  case (Cons ev evs)
  have "j < g_key_count (step_state s ev)"
    using Cons.prems key_count_step [of s ev] by simp
  with Cons.IH [of "step_state s ev"] fixed_part_step [OF Cons.prems, of ev]
  show ?case by simp
qed

lemma key_count_run: "g_key_count s \<le> g_key_count (run s evs)"
proof (induction evs arbitrary: s)
  case Nil
  then show ?case by simp
next
  case (Cons ev evs)
  from Cons [of "step_state s ev"] key_count_step [of s ev] show ?case by simp
qed

lemma stored_key_id_fixed_part: "stored_key_id (fixed_part e) = stored_key_id e"
  by (simp add: stored_key_id_def fixed_part_fields)

lemma stored_key_id_run:
  assumes "j < g_key_count s"
  shows "stored_key_id (g_key_storage (run s evs) ! j) = stored_key_id (g_key_storage s ! j)"
  using fixed_part_run [OF assms, of evs] stored_key_id_fixed_part by metis

lemma find_key_index_run:
  assumes "find_key_index s kid = Some i"
  shows "find_key_index (run s evs) kid = Some i"
proof (rule find_key_index_first)
  note f = find_key_index_Some [OF assms]
  show "i < g_key_count (run s evs)"
    using f(1) key_count_run [of s evs] by simp
  show "stored_key_id (g_key_storage (run s evs) ! i) = c_string kid SR_MAX_KEY_ID_SIZE"
    using f(1,2) by (simp add: stored_key_id_run)
  show "\<forall>j<i. stored_key_id (g_key_storage (run s evs) ! j) \<noteq> c_string kid SR_MAX_KEY_ID_SIZE"
    using f(1,3) by (simp add: stored_key_id_run)
qed

lemma find_key_index_generated:
  assumes "generate_checks s pt ps" "g_key_count s < length (g_key_storage s)"
    and "keypair_by_type env t (requested_entry env ps) = (res, ke)"
    and "string_param (param0 ps)"
  shows "find_key_index (generated_state s ke) (memref_buffer (param0 ps)) = Some (g_key_count s)"
proof (rule find_key_index_first)
  have len: "memref_size (param0 ps) < SR_MAX_KEY_ID_SIZE"
    using assms(1) by (simp add: generate_checks_def)
  have cs: "c_string (memref_buffer (param0 ps)) SR_MAX_KEY_ID_SIZE = declared_bytes (param0 ps)"
    using assms(4) len by (rule c_string_string_param)
  show "g_key_count s < g_key_count (generated_state s ke)"
    by (simp add: generated_state_def)
  show "stored_key_id (g_key_storage (generated_state s ke) ! g_key_count s)
      = c_string (memref_buffer (param0 ps)) SR_MAX_KEY_ID_SIZE"
    using stored_key_id_generated [OF assms(3) len] assms(2,4) cs
    by (simp add: generated_state_slot c_string_declared)
  have "find_key_index s (memref_buffer (param0 ps)) = None"
    using assms(1) by (simp add: generate_checks_def)
  then show "\<forall>j<g_key_count s. stored_key_id (g_key_storage (generated_state s ke) ! j)
      \<noteq> c_string (memref_buffer (param0 ps)) SR_MAX_KEY_ID_SIZE"
    by (simp add: find_key_index_None generated_state_def)
qed

subsection \<open>Fetching the public key\<close>

lemma cmd_get_public_key_found:
  assumes "pt = get_public_key_types"
    and "0 < memref_size (param0 ps)" "memref_size (param0 ps) < SR_MAX_KEY_ID_SIZE"
    and "sizeof_sr_public_key_result_t \<le> memref_size (param1 ps)"
    and "find_key_index s (memref_buffer (param0 ps)) = Some i"
  shows "cmd_get_public_key s pt ps =
     (TEE_SUCCESS,
      PublicKeyResult \<lparr>
        pk_public_key = array_write (zeros SR_SECP256K1_PUBLIC_KEY_SIZE) 0
          (take (unat (public_key_len (g_key_storage s ! i))) (public_key (g_key_storage s ! i))),
        pk_public_key_len = public_key_len (g_key_storage s ! i),
        pk_ethereum_address = array_write (zeros SR_ETHEREUM_ADDRESS_SIZE) 0
          (take SR_ETHEREUM_ADDRESS_SIZE (ethereum_address (info (g_key_storage s ! i)))),
        pk_reserved = zeros 8\<rparr>,
      s\<lparr>g_operation_count := g_operation_count s + 1\<rparr>)"
  using assms
  by (simp add: cmd_get_public_key_def get_public_key_types_def Let_def zero_public_key_result_def
      not_less [symmetric])

subsection \<open>Usage statistics\<close>

lemma usage_step:
  assumes "arrays_ok s" "i < g_key_count s"
  shows "usage_count (info (g_key_storage (step_state s ev) ! i))
      = usage_count (info (g_key_storage s ! i)) + (if signed_slot s ev = Some i then 1 else 0)"
    and "last_used_time (info (g_key_storage (step_state s ev) ! i))
      = (if signed_slot s ev = Some i
         then (case ev of InvokeCommand env c pt ps \<Rightarrow> get_current_time env | _ \<Rightarrow> 0)
         else last_used_time (info (g_key_storage s ! i)))"
proof -
  obtain res out s' where st: "step s ev = (res, out, s')"
    by (cases "step s ev")
  have le: "i < length (g_key_storage s)"
    using assms by (simp add: arrays_ok_def)
  from st have "usage_count (info (g_key_storage s' ! i))
      = usage_count (info (g_key_storage s ! i)) + (if signed_slot s ev = Some i then 1 else 0)
    \<and> last_used_time (info (g_key_storage s' ! i))
      = (if signed_slot s ev = Some i
         then (case ev of InvokeCommand env c pt ps \<Rightarrow> get_current_time env | _ \<Rightarrow> 0)
         else last_used_time (info (g_key_storage s ! i)))"
  proof (cases rule: step_cases)
    case (counters c n)
    with st show ?thesis
      by (cases ev) (auto simp: cmd_ids)
  next
    case (failed env pt ps ke)
    with st assms(2) show ?thesis by (simp add: cmd_ids)
  next
    case (generated env pt ps ke)
    with st assms(2) show ?thesis by (simp add: cmd_ids generated_state_def)
  next
    case (signed env pt ps j r)
    from signed st have sl: "signed_slot s ev = Some j"
      by simp
    show ?thesis
    proof (cases "j = i")
      case True
      with sl signed(1,8) le show ?thesis
        by (simp add: signed_state_def used_info_def)
    next
      case False
      with sl signed(8) show ?thesis
        by (simp add: signed_state_def)
    qed
  qed
  with st show "usage_count (info (g_key_storage (step_state s ev) ! i))
      = usage_count (info (g_key_storage s ! i)) + (if signed_slot s ev = Some i then 1 else 0)"
    and "last_used_time (info (g_key_storage (step_state s ev) ! i))
      = (if signed_slot s ev = Some i
         then (case ev of InvokeCommand env c pt ps \<Rightarrow> get_current_time env | _ \<Rightarrow> 0)
         else last_used_time (info (g_key_storage s ! i)))"
    by (simp_all add: step_state_eq)
qed

lemma usage_run:
  assumes "arrays_ok s" "i < g_key_count s"
  shows "usage_count (info (g_key_storage (run s evs) ! i))
      = usage_count (info (g_key_storage s ! i)) + of_nat (signs_on i s evs)"
  using assms
proof (induction evs arbitrary: s)
  case Nil
  then show ?case by simp
next
  case (Cons ev evs)
  have "i < g_key_count (step_state s ev)"
    using Cons.prems(2) key_count_step [of s ev] by simp
  with Cons.IH [OF arrays_ok_step [OF Cons.prems(1)], of ev] usage_step(1) [OF Cons.prems, of ev]
  show ?case by simp
qed

lemma ucast_seconds_mono: "a \<le> b \<Longrightarrow> (ucast (a :: 32 word) :: 64 word) \<le> ucast b"
  by (simp add: word_le_def uint_up_ucast is_up)

lemma signed_slot_clock:
  assumes "signed_slot s ev = Some i"
  obtains env c pt ps where "ev = InvokeCommand env c pt ps"
    "clock (ev # evs) = system_time_seconds env # clock evs"
  using assms by (cases ev) simp_all

lemma use_times_sorted:
  assumes "arrays_ok s" "i < g_key_count s" "sorted (clock evs)"
    and "\<forall>c \<in> set (clock evs). lo \<le> ucast c"
  shows "sorted (use_times i s evs) \<and> (\<forall>t \<in> set (use_times i s evs). lo \<le> t)"
  using assms
proof (induction evs arbitrary: s lo)
  case Nil
  then show ?case by simp
next
  case (Cons ev evs)
  let ?s' = "step_state s ev"
  have a: "arrays_ok ?s'" and l: "i < g_key_count ?s'"
    using Cons.prems(1,2) key_count_step [of s ev] by (simp_all add: arrays_ok_step)
  show ?case
  proof (cases "signed_slot s ev = Some i")
    case True
    then obtain env c pt ps where ev: "ev = InvokeCommand env c pt ps"
      and ck: "clock (ev # evs) = system_time_seconds env # clock evs"
      by (rule signed_slot_clock)
    let ?t = "get_current_time env"
    have t: "last_used_time (info (g_key_storage ?s' ! i)) = ?t"
      using usage_step(2) [OF Cons.prems(1,2), of ev] True ev by simp
    have srt: "sorted (clock evs)" and ge: "\<forall>c \<in> set (clock evs). system_time_seconds env \<le> c"
      using Cons.prems(3) ck by simp_all
    have "\<forall>c \<in> set (clock evs). ?t \<le> ucast c"
      using ge by (simp add: get_current_time_def ucast_seconds_mono)
    from Cons.IH [OF a l srt this]
    have ih: "sorted (use_times i ?s' evs)" "\<forall>t \<in> set (use_times i ?s' evs). ?t \<le> t"
      by simp_all
    have "lo \<le> ?t"
      using Cons.prems(4) ck by (simp add: get_current_time_def)
    with ih True t show ?thesis
      by auto
  next
    case False
    have srt: "sorted (clock evs)" and ge: "\<forall>c \<in> set (clock evs). lo \<le> ucast c"
      using Cons.prems(3,4) by (cases ev; simp)+
    from Cons.IH [OF a l srt ge] False show ?thesis by simp
  qed
qed

lemma usage_count_requested_entry [simp]:
  "usage_count (info (requested_entry env ps)) = 0"
  "created_time (info (requested_entry env ps)) = get_current_time env"
  by (simp_all add: requested_entry_def new_key_entry_def Let_def)

lemma keypair_by_type_statistics:
  assumes "keypair_by_type env t e = (res, ke)"
  shows "usage_count (info ke) = usage_count (info e)" "created_time (info ke) = created_time (info e)"
proof -
  have "(info ke)\<lparr>ethereum_address := []\<rparr> = (info e)\<lparr>ethereum_address := []\<rparr>"
    using assms by (rule keypair_by_type_frame(3))
  then have "usage_count ((info ke)\<lparr>ethereum_address := []\<rparr>) = usage_count ((info e)\<lparr>ethereum_address := []\<rparr>)"
    "created_time ((info ke)\<lparr>ethereum_address := []\<rparr>) = created_time ((info e)\<lparr>ethereum_address := []\<rparr>)"
    by simp_all
  then show "usage_count (info ke) = usage_count (info e)" "created_time (info ke) = created_time (info e)"
    by simp_all
qed

lemma sign_message_ecdsa_good_env:
  "fst (sign_message_ecdsa (good_env now d x y) e h z) = TEE_SUCCESS"
  by (simp add: sign_message_ecdsa_def good_env_def split: prod.splits)

lemma sign_abc_step:
  assumes "reachable s" "find_key_index s (mem_of [97, 98, 99]) = Some 0"
    and "status (info (g_key_storage s ! 0)) = SR_KEY_STATUS_ACTIVE"
  shows "signed_slot s (sign_abc now) = Some 0"
    and "find_key_index (step_state s (sign_abc now)) (mem_of [97, 98, 99]) = Some 0"
    and "status (info (g_key_storage (step_state s (sign_abc now)) ! 0)) = SR_KEY_STATUS_ACTIVE"
proof -
  let ?env = "good_env now (replicate 32 7) (map of_nat [1..<33]) (map of_nat [33..<65])"
  let ?ps = "sign_params [97, 98, 99] (replicate 32 5)"
  have chk: "sign_checks sign_types ?ps"
    by (simp add: sign_checks_def sign_params_def memref_def sr_consts sizeof_sr_signature_result_t_def)
  have buf: "memref_buffer (param0 ?ps) = mem_of [97, 98, 99]"
    by (simp add: sign_params_def memref_def)
  note f = find_key_index_Some [OF assms(2)]
  have "key_type (g_key_storage s ! 0) = SR_KEY_TYPE_ECDSA_SECP256K1"
    using reachable_invariants(3) [OF assms(1)] f(1) by (simp add: all_ecdsa_def)
  then have "fst (sign_by_type ?env (g_key_storage s ! 0) (memref_buffer (param1 ?ps))) = TEE_SUCCESS"
    by (simp add: sign_by_type_def sign_message_ecdsa_good_env)
  then have "fst (cmd_sign_message ?env s sign_types ?ps) = TEE_SUCCESS"
    using cmd_sign_message_active [OF chk, of s 0 ?env] assms(2,3) buf
    by (simp split: prod.splits)
  then show "signed_slot s (sign_abc now) = Some 0"
    using assms(2) buf by (simp add: sign_abc_def TA_InvokeCommandEntryPoint_def cmd_ids)
  show "find_key_index (step_state s (sign_abc now)) (mem_of [97, 98, 99]) = Some 0"
    using find_key_index_run [OF assms(2), of "[sign_abc now]"] by simp
  show "status (info (g_key_storage (step_state s (sign_abc now)) ! 0)) = SR_KEY_STATUS_ACTIVE"
    using fixed_part_step [OF f(1), of "sign_abc now"] assms(3) fixed_part_fields(5) by metis
qed

lemma signs_on_replicate_sign_abc:
  assumes "reachable s" "find_key_index s (mem_of [97, 98, 99]) = Some 0"
    and "status (info (g_key_storage s ! 0)) = SR_KEY_STATUS_ACTIVE"
  shows "signs_on 0 s (replicate n (sign_abc now)) = n"
  using assms
proof (induction n arbitrary: s)
  case 0
  then show ?case by simp
next
  case (Suc n)
  note st = sign_abc_step [OF Suc.prems, of now]
  have "signs_on 0 (step_state s (sign_abc now)) (replicate n (sign_abc now)) = n"
    using Suc.prems(1) st(2,3) by (intro Suc.IH reachable.stepped)
  with st(1) show ?case by simp
qed

lemma state_abc_key:
  "find_key_index state_abc (mem_of [97, 98, 99]) = Some 0"
  "status (info (g_key_storage state_abc ! 0)) = SR_KEY_STATUS_ACTIVE"
  "usage_count (info (g_key_storage state_abc ! 0)) = 0"
  "g_key_count state_abc = 1"
  by code_simp+

lemma cmd_sign_message_failure:
  assumes "fst (cmd_sign_message env s pt ps) \<noteq> TEE_SUCCESS"
  shows "snd (snd (cmd_sign_message env s pt ps)) = s"
proof -
  obtain res out s' where r: "cmd_sign_message env s pt ps = (res, out, s')"
    by (cases "cmd_sign_message env s pt ps")
  from r show ?thesis
  proof (cases rule: cmd_sign_message_cases)
    case failed
    with r show ?thesis by simp
  next
    case (signed i sig)
    with r assms show ?thesis by simp
  qed
qed

subsection \<open>The address of a generated key\<close>

text \<open>
  When \<^verbatim>\<open>generate_key\<close> succeeds for a key pair whose coordinates are 32 bytes each and
  the digest of the 64-byte public key \<open>X @ Y\<close> succeeds with a 32-byte value, the address
  written to the output is 20 bytes long and equals bytes 12..31 of that digest; the same
  public key and address are in the new record.
\<close>

lemma generated_address_when_digest_succeeds:
  assumes "cmd_generate_key env s pt ps = (TEE_SUCCESS, out, s')"
    and "length (g_key_storage s) = SR_MAX_KEYS"
    and "attr_public_value_x env = (rx, x)" "length x = 32"
    and "attr_public_value_y env = (ry, y)" "length y = 32"
    and "digest_do_final env (x @ y) = (TEE_SUCCESS, h)" "length h = 32"
  shows "out = Address (take 20 (drop 12 h)) \<and> length (take 20 (drop 12 h)) = 20
         \<and> public_key (g_key_storage s' ! g_key_count s) = x @ y
         \<and> ethereum_address (info (g_key_storage s' ! g_key_count s)) = take 20 (drop 12 h)"
  using assms(1)
proof (cases rule: cmd_generate_key_cases)
  case rejected
  then show ?thesis by simp
next
  case (failed ke)
  then show ?thesis by simp
next
  case (generated ke)
  note k = keypair_by_type_success [OF generated(2)]
  have pk: "public_key ke = x @ y"
    using k(2) assms(3-6) array_write_coordinates [of x y] by (simp add: sr_consts)
  have addr: "ethereum_address (info ke) = take 20 (drop 12 h)"
    using k(4) pk assms(4,6-8) by (simp add: derive_ethereum_address_success)
  have "g_key_count s < length (g_key_storage s)"
    using generated(1) assms(2) by (simp add: generate_checks_def)
  then have "g_key_storage s' ! g_key_count s = ke"
    using generated(6) by (simp add: generated_state_slot)
  with pk addr generated(5) assms(8) show ?thesis
    by (simp add: sr_consts)
qed

text \<open>The hypotheses hold for the first key generated in a fresh instance.\<close>

lemma generated_address_when_digest_succeeds_example:
  "cmd_generate_key env0 (TA_CreateEntryPoint env0) generate_types (generate_params [97, 98, 99] 0)
     = (TEE_SUCCESS, Address (map of_nat [13..<33]),
        generated_state (TA_CreateEntryPoint env0)
          (snd (keypair_by_type env0 0 (requested_entry env0 (generate_params [97, 98, 99] 0)))))
   \<and> public_key (g_key_storage (generated_state (TA_CreateEntryPoint env0)
          (snd (keypair_by_type env0 0 (requested_entry env0 (generate_params [97, 98, 99] 0))))) ! 0)
        = map of_nat [1..<33] @ map of_nat [33..<65]"
proof -
  let ?s' = "generated_state (TA_CreateEntryPoint env0)
          (snd (keypair_by_type env0 0 (requested_entry env0 (generate_params [97, 98, 99] 0))))"
  have g: "cmd_generate_key env0 (TA_CreateEntryPoint env0) generate_types (generate_params [97, 98, 99] 0)
     = (TEE_SUCCESS, Address (map of_nat [13..<33]), ?s')"
    by code_simp
  have l: "length (g_key_storage (TA_CreateEntryPoint env0)) = SR_MAX_KEYS"
    by (simp add: TA_CreateEntryPoint_def)
  have x: "attr_public_value_x env0 = (TEE_SUCCESS, map of_nat [1..<33])"
    and y: "attr_public_value_y env0 = (TEE_SUCCESS, map of_nat [33..<65])"
    by (simp_all add: env0_def good_env_def)
  have d: "digest_do_final env0 (map of_nat [1..<33] @ map of_nat [33..<65])
      = (TEE_SUCCESS, map of_nat [1..<33])"
    by (simp add: env0_def good_env_def)
  have c: "g_key_count (TA_CreateEntryPoint env0) = 0"
    by (simp add: TA_CreateEntryPoint_def)
  from generated_address_when_digest_succeeds [OF g l x _ y _ d] g c show ?thesis
    by simp
qed

subsection \<open>Generating a key and fetching it\<close>

text \<open>
  Let \<^verbatim>\<open>generate_key\<close> succeed in a reachable state for an identifier passed as a string,
  with coordinates of 32 bytes each and a successful 32-byte digest of the public key
  \<open>X @ Y\<close>.  Then after any further calls \<^verbatim>\<open>get_public_key\<close> for the same identifier
  succeeds; the public key it returns is \<open>X @ Y\<close>, the address it returns is the address
  \<^verbatim>\<open>generate_key\<close> returned, and the address derived again from the returned public key is
  that address.
\<close>

lemma round_trip_when_digest_succeeds:
  assumes "reachable s"
    and "cmd_generate_key env s pt ps = (TEE_SUCCESS, out, s1)"
    and "string_param (param0 ps)"
    and "attr_public_value_x env = (rx, x)" "length x = 32"
    and "attr_public_value_y env = (ry, y)" "length y = 32"
    and "digest_do_final env (x @ y) = (TEE_SUCCESS, h)" "length h = 32"
    and "pt' = get_public_key_types"
    and "memref_buffer (param0 ps') = memref_buffer (param0 ps)"
    and "memref_size (param0 ps') = memref_size (param0 ps)"
    and "sizeof_sr_public_key_result_t \<le> memref_size (param1 ps')"
  shows "out = Address (take 20 (drop 12 h))
     \<and> cmd_get_public_key (run s1 evs) pt' ps' =
         (TEE_SUCCESS,
          PublicKeyResult \<lparr>pk_public_key = x @ y, pk_public_key_len = 64,
            pk_ethereum_address = take 20 (drop 12 h), pk_reserved = zeros 8\<rparr>,
          (run s1 evs)\<lparr>g_operation_count := g_operation_count (run s1 evs) + 1\<rparr>)
     \<and> derive_ethereum_address env (x @ y) = take 20 (drop 12 h)"
  using assms(2)
proof (cases rule: cmd_generate_key_cases)
  case rejected
  then show ?thesis by simp
next
  case (failed ke)
  then show ?thesis by simp
next
  case (generated ke)
  let ?i = "g_key_count s"
  let ?s2 = "run s1 evs"
  note inv = reachable_invariants [OF assms(1)]
  have lt: "?i < length (g_key_storage s)"
    using generated(1) inv(1) by (simp add: generate_checks_def arrays_ok_def)
  note k = keypair_by_type_success [OF generated(2)]
  have pk: "public_key ke = x @ y"
    using k(2) assms(4-7) array_write_coordinates [of x y] by (simp add: sr_consts)
  have pl: "public_key_len ke = 64"
    using k(3) assms(4-7) by simp
  have dv: "derive_ethereum_address env (x @ y) = take 20 (drop 12 h)"
    using assms(5,7-9) by (simp add: derive_ethereum_address_success)
  have addr: "ethereum_address (info ke) = take 20 (drop 12 h)"
    using k(4) pk dv by simp
  have slot: "g_key_storage s1 ! ?i = ke"
    using generated(6) lt by (simp add: generated_state_slot)
  have live: "?i < g_key_count s1"
    using generated(6) by (simp add: generated_state_def)
  have "find_key_index s1 (memref_buffer (param0 ps)) = Some ?i"
    unfolding generated(6) using generated(1) lt generated(2) assms(3)
    by (rule find_key_index_generated)
  then have found: "find_key_index ?s2 (memref_buffer (param0 ps')) = Some ?i"
    using assms(11) by (simp add: find_key_index_run)
  have fp: "fixed_part (g_key_storage ?s2 ! ?i) = fixed_part ke"
    using fixed_part_run [OF live, of evs] slot by simp
  have e: "public_key (g_key_storage ?s2 ! ?i) = x @ y"
    "public_key_len (g_key_storage ?s2 ! ?i) = 64"
    "ethereum_address (info (g_key_storage ?s2 ! ?i)) = take 20 (drop 12 h)"
    using fp pk pl addr fixed_part_fields by metis+
  have len: "0 < memref_size (param0 ps')" "memref_size (param0 ps') < SR_MAX_KEY_ID_SIZE"
    using generated(1) assms(12) by (simp_all add: generate_checks_def)
  have "cmd_get_public_key ?s2 pt' ps' =
         (TEE_SUCCESS,
          PublicKeyResult \<lparr>pk_public_key = x @ y, pk_public_key_len = 64,
            pk_ethereum_address = take 20 (drop 12 h), pk_reserved = zeros 8\<rparr>,
          ?s2\<lparr>g_operation_count := g_operation_count ?s2 + 1\<rparr>)"
    using cmd_get_public_key_found [OF assms(10) len assms(13) found] e assms(5,7,9)
    by (simp add: array_write_def zeros_def sr_consts)
  with generated(5) addr dv assms(9) show ?thesis
    by (simp add: sr_consts)
qed

text \<open>Key \<open>abc\<close>, fetched after a signature and the generation of a second key.\<close>

lemma round_trip_when_digest_succeeds_example:
  "reachable (TA_CreateEntryPoint env0)
   \<and> cmd_generate_key env0 (TA_CreateEntryPoint env0) generate_types (generate_params [97, 98, 99] 0)
       = (TEE_SUCCESS, Address (map of_nat [13..<33]), state_abc)
   \<and> string_param (param0 (generate_params [97, 98, 99] 0))
   \<and> sizeof_sr_public_key_result_t \<le> memref_size (param1 (get_public_key_params [97, 98, 99]))
   \<and> fst (snd (cmd_get_public_key (run state_abc (tl two_keys)) get_public_key_types
         (get_public_key_params [97, 98, 99])))
       = PublicKeyResult \<lparr>pk_public_key = map of_nat [1..<33] @ map of_nat [33..<65],
           pk_public_key_len = 64, pk_ethereum_address = map of_nat [13..<33],
           pk_reserved = zeros 8\<rparr>
   \<and> derive_ethereum_address env0 (map of_nat [1..<33] @ map of_nat [33..<65]) = map of_nat [13..<33]"
proof -
  have g: "cmd_generate_key env0 (TA_CreateEntryPoint env0) generate_types (generate_params [97, 98, 99] 0)
       = (TEE_SUCCESS, Address (map of_nat [13..<33]), state_abc)"
    by code_simp
  have p: "string_param (param0 (generate_params [97, 98, 99] 0))"
    and z: "sizeof_sr_public_key_result_t \<le> memref_size (param1 (get_public_key_params [97, 98, 99]))"
    and b: "memref_buffer (param0 (get_public_key_params [97, 98, 99]))
        = memref_buffer (param0 (generate_params [97, 98, 99] 0))"
    and n: "memref_size (param0 (get_public_key_params [97, 98, 99]))
        = memref_size (param0 (generate_params [97, 98, 99] 0))"
    by (simp_all add: generate_params_def get_public_key_params_def memref_def string_param_def
        declared_bytes_def mem_of_def sizeof_sr_public_key_result_t_def upt_rec)
  have x: "attr_public_value_x env0 = (TEE_SUCCESS, map of_nat [1..<33])"
    and y: "attr_public_value_y env0 = (TEE_SUCCESS, map of_nat [33..<65])"
    and d: "digest_do_final env0 (map of_nat [1..<33] @ map of_nat [33..<65])
      = (TEE_SUCCESS, map of_nat [1..<33])"
    by (simp_all add: env0_def good_env_def)
  have t: "take 20 (drop 12 (map of_nat [1..<33])) = (map of_nat [13..<33] :: byte list)"
    by code_simp
  note r = round_trip_when_digest_succeeds [OF reachable.created g p x _ y _ d _ refl b n z,
      where evs = "tl two_keys"]
  from r t have "fst (snd (cmd_get_public_key (run state_abc (tl two_keys)) get_public_key_types
         (get_public_key_params [97, 98, 99])))
       = PublicKeyResult \<lparr>pk_public_key = map of_nat [1..<33] @ map of_nat [33..<65],
           pk_public_key_len = 64, pk_ethereum_address = map of_nat [13..<33],
           pk_reserved = zeros 8\<rparr>"
    by simp
  moreover from r t have "derive_ethereum_address env0 (map of_nat [1..<33] @ map of_nat [33..<65])
      = map of_nat [13..<33]"
    by simp
  ultimately show ?thesis
    using g p z reachable.created [of env0] by (intro conjI)
qed


section \<open>The claims\<close>

subsection \<open>Address derivation\<close>

text \<open>
  Claim C1 says that for every successful \<^verbatim>\<open>generate_key\<close> the address written to the
  output is 20 bytes long and equals bytes 12..31 of the digest of the 64-byte public key
  of the new key pair.  The code does not keep to it when the digest call fails:
  \<^verbatim>\<open>derive_ethereum_address\<close> reports nothing to its caller, so it logs the failure and
  clears the address, and \<^verbatim>\<open>generate_key\<close> goes on to store the key and to succeed.
  Every other provider call of \<^verbatim>\<open>generate_secp256k1_keypair\<close> has its failure returned to
  the caller.  In a fresh instance, with a provider whose digest call reports an error,
  \<^verbatim>\<open>generate_key\<close> for \<open>abc\<close> returns \<open>TEE_SUCCESS\<close> and twenty zero bytes and makes the key
  live, while bytes 12..31 of the digest of its public key (as the working provider
  computes it) are 13, ..., 32; with a provider whose read of the Y coordinate reports
  that error instead, the command fails with it and no key is live.
\<close>

theorem generate_key_swallows_digest_failure:
  "fst (cmd_generate_key digest_failing_env (TA_CreateEntryPoint env0) generate_types
          (generate_params [97, 98, 99] 0)) = TEE_SUCCESS
   \<and> fst (snd (cmd_generate_key digest_failing_env (TA_CreateEntryPoint env0) generate_types
          (generate_params [97, 98, 99] 0))) = Address (replicate 20 0)
   \<and> g_key_count (snd (snd (cmd_generate_key digest_failing_env (TA_CreateEntryPoint env0)
          generate_types (generate_params [97, 98, 99] 0)))) = 1
   \<and> public_key (g_key_storage (snd (snd (cmd_generate_key digest_failing_env
          (TA_CreateEntryPoint env0) generate_types (generate_params [97, 98, 99] 0)))) ! 0)
        = map of_nat [1..<65]
   \<and> ethereum_address (info (g_key_storage (snd (snd (cmd_generate_key digest_failing_env
          (TA_CreateEntryPoint env0) generate_types (generate_params [97, 98, 99] 0)))) ! 0))
        = replicate 20 0
   \<and> digest_do_final env0 (map of_nat [1..<65]) = (TEE_SUCCESS, map of_nat [1..<33])
   \<and> take 20 (drop 12 (map of_nat [1..<33])) = (map of_nat [13..<33] :: byte list)
   \<and> fst (cmd_generate_key coordinate_failing_env (TA_CreateEntryPoint env0) generate_types
          (generate_params [97, 98, 99] 0)) = TEE_ERROR_BAD_PARAMETERS
   \<and> g_key_count (snd (snd (cmd_generate_key coordinate_failing_env (TA_CreateEntryPoint env0)
          generate_types (generate_params [97, 98, 99] 0)))) = 0"
  by code_simp

subsection \<open>Listing the keys\<close>

text \<open>
  Claim C2.  After any sequence of calls on a created instance, a well-formed
  \<^verbatim>\<open>list_keys\<close> succeeds; its count is the number of live keys, which is the number of
  successful \<^verbatim>\<open>generate_key\<close> calls so far; its entries are the public metadata of the live
  records, in slot order, and their identifiers are those of the successful
  \<^verbatim>\<open>generate_key\<close> calls in the order of the calls.  The answer is a structure of
  \<^verbatim>\<open>sr_key_info_t\<close> records, which have no field for key material, and it is the same in
  any state that differs only in the stored private keys.
\<close>

theorem list_keys_public_metadata_in_creation_order:
  assumes "pt = output_only_types" "sizeof_sr_key_list_result_t \<le> memref_size (param0 ps)"
    and "s = run (TA_CreateEntryPoint env) evs"
  shows "fst (cmd_list_keys s pt ps) = TEE_SUCCESS
     \<and> fst (snd (cmd_list_keys s pt ps)) =
          KeyListResult \<lparr>key_count = g_key_count s,
            keys = array_write (replicate SR_MAX_KEYS zero_key_info) 0 (take (g_key_count s) (g_keys s))\<rparr>
     \<and> listed (cmd_list_keys s pt ps) = map info (take (g_key_count s) (g_key_storage s))
     \<and> map info_id (listed (cmd_list_keys s pt ps)) = created_ids (TA_CreateEntryPoint env) evs
     \<and> g_key_count s = length (created_ids (TA_CreateEntryPoint env) evs)
     \<and> (\<forall>t. same_public s t \<longrightarrow>
           fst (cmd_list_keys t pt ps) = fst (cmd_list_keys s pt ps)
           \<and> fst (snd (cmd_list_keys t pt ps)) = fst (snd (cmd_list_keys s pt ps)))"
proof -
  have r: "reachable s"
    unfolding assms(3) by (intro reachable_run reachable.created)
  note inv = reachable_invariants [OF r]
  have le: "g_key_count s \<le> length (g_keys s)"
    using inv(1) by (simp add: arrays_ok_def)
  have l: "listed (cmd_list_keys s pt ps) = take (g_key_count s) (g_keys s)"
    using assms(1,2) le by (rule listed_cmd_list_keys)
  have ids: "listed_ids s = created_ids (TA_CreateEntryPoint env) evs"
    unfolding assms(3)
    using listed_ids_run [OF arrays_ok_created mirrored_created, of env evs]
    by (simp add: listed_ids_def)
  have "length (listed_ids s) = g_key_count s"
    using le by (simp add: listed_ids_def)
  with ids have n: "g_key_count s = length (created_ids (TA_CreateEntryPoint env) evs)"
    by simp
  have ni: "fst (cmd_list_keys t pt ps) = fst (cmd_list_keys s pt ps)
      \<and> fst (snd (cmd_list_keys t pt ps)) = fst (snd (cmd_list_keys s pt ps))"
    if "same_public s t" for t
    using that assms(1,2) by (simp add: cmd_list_keys_ok same_public_def)
  have "fst (cmd_list_keys s pt ps) = TEE_SUCCESS"
    using assms(1,2) by (simp add: cmd_list_keys_ok)
  moreover have "fst (snd (cmd_list_keys s pt ps)) =
          KeyListResult \<lparr>key_count = g_key_count s,
            keys = array_write (replicate SR_MAX_KEYS zero_key_info) 0 (take (g_key_count s) (g_keys s))\<rparr>"
    using assms(1,2) by (simp add: cmd_list_keys_ok)
  moreover have "listed (cmd_list_keys s pt ps) = map info (take (g_key_count s) (g_key_storage s))"
    using l take_mirrored [OF inv(1,2)] by simp
  moreover have "map info_id (listed (cmd_list_keys s pt ps)) = created_ids (TA_CreateEntryPoint env) evs"
    using l ids by (simp add: listed_ids_def)
  ultimately show ?thesis
    using n ni by blast
qed

text \<open>
  Key \<open>abc\<close>, a signature with it, then key \<open>de\<close>; and the same store with every private
  key overwritten.
\<close>

theorem list_keys_public_metadata_in_creation_order_witness:
  "sizeof_sr_key_list_result_t \<le> memref_size (param0 list_keys_params)
   \<and> created_ids (TA_CreateEntryPoint env0) two_keys = [[97, 98, 99], [100, 101]]
   \<and> map info_id (listed (cmd_list_keys (run (TA_CreateEntryPoint env0) two_keys)
         output_only_types list_keys_params)) = [[97, 98, 99], [100, 101]]
   \<and> g_key_count (run (TA_CreateEntryPoint env0) two_keys) = 2
   \<and> same_public (run (TA_CreateEntryPoint env0) two_keys)
         (other_secrets (run (TA_CreateEntryPoint env0) two_keys))
   \<and> private_key (g_key_storage (run (TA_CreateEntryPoint env0) two_keys) ! 0)
       \<noteq> private_key (g_key_storage (other_secrets (run (TA_CreateEntryPoint env0) two_keys)) ! 0)
   \<and> fst (snd (cmd_list_keys (other_secrets (run (TA_CreateEntryPoint env0) two_keys))
         output_only_types list_keys_params))
       = fst (snd (cmd_list_keys (run (TA_CreateEntryPoint env0) two_keys)
         output_only_types list_keys_params))"
proof -
  have a: "sizeof_sr_key_list_result_t \<le> memref_size (param0 list_keys_params)"
    by code_simp
  have b: "created_ids (TA_CreateEntryPoint env0) two_keys = [[97, 98, 99], [100, 101]]"
    by code_simp
  have c: "same_public (run (TA_CreateEntryPoint env0) two_keys)
         (other_secrets (run (TA_CreateEntryPoint env0) two_keys))"
    by code_simp
  have d: "private_key (g_key_storage (run (TA_CreateEntryPoint env0) two_keys) ! 0)
       \<noteq> private_key (g_key_storage (other_secrets (run (TA_CreateEntryPoint env0) two_keys)) ! 0)"
    by code_simp
  note t = list_keys_public_metadata_in_creation_order [OF refl a refl, of env0 two_keys]
  from t have "map info_id (listed (cmd_list_keys (run (TA_CreateEntryPoint env0) two_keys)
         output_only_types list_keys_params)) = created_ids (TA_CreateEntryPoint env0) two_keys"
    by blast
  then have e: "map info_id (listed (cmd_list_keys (run (TA_CreateEntryPoint env0) two_keys)
         output_only_types list_keys_params)) = [[97, 98, 99], [100, 101]]"
    by (simp only: b)
  from t have "g_key_count (run (TA_CreateEntryPoint env0) two_keys)
      = length (created_ids (TA_CreateEntryPoint env0) two_keys)"
    by blast
  then have f: "g_key_count (run (TA_CreateEntryPoint env0) two_keys) = 2"
    by (simp only: b) simp
  from t c have g: "fst (snd (cmd_list_keys (other_secrets (run (TA_CreateEntryPoint env0) two_keys))
         output_only_types list_keys_params))
       = fst (snd (cmd_list_keys (run (TA_CreateEntryPoint env0) two_keys)
         output_only_types list_keys_params))"
    by blast
  from a b c d e f g show ?thesis
    by (intro conjI)
qed

subsection \<open>Duplicate identifiers\<close>

text \<open>
  Claim C3, as amended.  A \<^verbatim>\<open>generate_key\<close> request of the right shape (parameter types,
  identifier length, recognised key type) whose identifier, passed as a string, is that
  of a live record fails and returns the state it was given: with
  \<open>SR_ERROR_KEY_ALREADY_EXISTS\<close> while the store holds fewer than sixteen keys, with
  \<open>TEE_ERROR_STORAGE_NO_SPACE\<close> when it is full.
\<close>

theorem generate_existing_key:
  assumes "pt = generate_types"
    and "0 < memref_size (param0 ps)" "memref_size (param0 ps) < SR_MAX_KEY_ID_SIZE"
    and "value_a (param1 ps) < SR_KEY_TYPE_MAX"
    and "string_param (param0 ps)"
    and "i < g_key_count s" "stored_key_id (g_key_storage s ! i) = declared_bytes (param0 ps)"
  shows "cmd_generate_key env s pt ps =
     (if g_key_count s < SR_MAX_KEYS then SR_ERROR_KEY_ALREADY_EXISTS
      else TEE_ERROR_STORAGE_NO_SPACE, NoOutput, s)"
proof (cases "g_key_count s < SR_MAX_KEYS")
  case True
  have "c_string (memref_buffer (param0 ps)) SR_MAX_KEY_ID_SIZE = declared_bytes (param0 ps)"
    using assms by (intro c_string_string_param) simp_all
  with assms have "find_key_index s (memref_buffer (param0 ps)) \<noteq> None"
    by (auto simp: find_key_index_None)
  with assms True have "cmd_generate_key env s pt ps = (SR_ERROR_KEY_ALREADY_EXISTS, NoOutput, s)"
    by (intro cmd_generate_key_exists) simp_all
  with True show ?thesis by simp
next
  case False
  with assms(1) have "cmd_generate_key env s pt ps = (TEE_ERROR_STORAGE_NO_SPACE, NoOutput, s)"
    by (intro cmd_generate_key_full) simp_all
  with False show ?thesis by simp
qed

text \<open>Generating \<open>abc\<close> a second time.\<close>

theorem generate_existing_key_witness:
  "g_key_count state_abc < SR_MAX_KEYS
   \<and> 0 < memref_size (param0 (generate_params [97, 98, 99] 0))
   \<and> memref_size (param0 (generate_params [97, 98, 99] 0)) < SR_MAX_KEY_ID_SIZE
   \<and> value_a (param1 (generate_params [97, 98, 99] 0)) < SR_KEY_TYPE_MAX
   \<and> string_param (param0 (generate_params [97, 98, 99] 0))
   \<and> 0 < g_key_count state_abc
   \<and> stored_key_id (g_key_storage state_abc ! 0) = declared_bytes (param0 (generate_params [97, 98, 99] 0))
   \<and> cmd_generate_key env0 state_abc generate_types (generate_params [97, 98, 99] 0)
       = (SR_ERROR_KEY_ALREADY_EXISTS, NoOutput, state_abc)"
proof -
  have c: "g_key_count state_abc < SR_MAX_KEYS"
    by code_simp
  have h: "0 < memref_size (param0 (generate_params [97, 98, 99] 0))"
    "memref_size (param0 (generate_params [97, 98, 99] 0)) < SR_MAX_KEY_ID_SIZE"
    "value_a (param1 (generate_params [97, 98, 99] 0)) < SR_KEY_TYPE_MAX"
    "string_param (param0 (generate_params [97, 98, 99] 0))"
    "0 < g_key_count state_abc"
    "stored_key_id (g_key_storage state_abc ! 0) = declared_bytes (param0 (generate_params [97, 98, 99] 0))"
    by code_simp+
  from generate_existing_key [OF refl h, of env0] c h show ?thesis by simp
qed

text \<open>
  The claim as stated ranges over every store state.  The capacity check comes before
  the duplicate check: with sixteen keys stored, generating the first of them again
  fails with \<open>TEE_ERROR_STORAGE_NO_SPACE\<close>.
\<close>

theorem generate_existing_key_full_store_counterexample:
  "0 < g_key_count full_state
   \<and> stored_key_id (g_key_storage full_state ! 0) = declared_bytes (param0 (generate_params [97] 0))
   \<and> cmd_generate_key env0 full_state generate_types (generate_params [97] 0)
       = (TEE_ERROR_STORAGE_NO_SPACE, NoOutput, full_state)
   \<and> TEE_ERROR_STORAGE_NO_SPACE \<noteq> SR_ERROR_KEY_ALREADY_EXISTS"
proof -
  have c: "g_key_count full_state = 16"
    using full_state_facts(1) by (simp add: sr_consts)
  have "arrays_ok full_state"
    unfolding full_state_def
    by (intro reachable_invariants(1) reachable_run reachable.created)
  then have "live_ids full_state ! 0 = stored_key_id (g_key_storage full_state ! 0)"
    using c by (simp add: live_ids_def arrays_ok_def)
  moreover have "map event_key_id sixteen_generates ! 0 = declared_bytes (param0 (generate_params [97] 0))"
    by code_simp
  ultimately have "stored_key_id (g_key_storage full_state ! 0)
      = declared_bytes (param0 (generate_params [97] 0))"
    using full_state_facts(2) by simp
  moreover have "cmd_generate_key env0 full_state generate_types (generate_params [97] 0)
       = (TEE_ERROR_STORAGE_NO_SPACE, NoOutput, full_state)"
    using c by (intro cmd_generate_key_full) (simp_all add: sr_consts)
  ultimately show ?thesis
    using c by (simp add: tee_results)
qed

subsection \<open>Capacity\<close>

text \<open>
  Claim C4, as amended.  From the created instance, sixteen \<^verbatim>\<open>generate_key\<close> calls for
  secp256k1 keys with valid identifiers that are passed as strings (no NUL among the
  declared bytes, the terminating NUL behind them) and are pairwise distinct, each a
  well-formed request that the provider serves, all succeed and leave sixteen live
  records under those identifiers; any further \<^verbatim>\<open>generate_key\<close> call then fails with
  \<open>TEE_ERROR_STORAGE_NO_SPACE\<close> and returns the state unchanged, so the sixteen records are
  as they were.
\<close>

theorem capacity_sixteen_keys:
  assumes "length evs = SR_MAX_KEYS" "list_all valid_generate evs"
    and "distinct (map event_key_id evs)"
  shows "results (TA_CreateEntryPoint env) evs = replicate SR_MAX_KEYS TEE_SUCCESS
     \<and> g_key_count (run (TA_CreateEntryPoint env) evs) = SR_MAX_KEYS
     \<and> live_ids (run (TA_CreateEntryPoint env) evs) = map event_key_id evs
     \<and> cmd_generate_key env' (run (TA_CreateEntryPoint env) evs) generate_types ps
         = (TEE_ERROR_STORAGE_NO_SPACE, NoOutput, run (TA_CreateEntryPoint env) evs)"
proof -
  have r: "results (TA_CreateEntryPoint env) evs = replicate (length evs) TEE_SUCCESS
     \<and> g_key_count (run (TA_CreateEntryPoint env) evs) = g_key_count (TA_CreateEntryPoint env) + length evs
     \<and> live_ids (run (TA_CreateEntryPoint env) evs) = live_ids (TA_CreateEntryPoint env) @ map event_key_id evs"
    using assms by (intro run_valid_generates arrays_ok_created) simp_all
  then have "SR_MAX_KEYS \<le> g_key_count (run (TA_CreateEntryPoint env) evs)"
    using assms(1) by simp
  then have "cmd_generate_key env' (run (TA_CreateEntryPoint env) evs) generate_types ps
         = (TEE_ERROR_STORAGE_NO_SPACE, NoOutput, run (TA_CreateEntryPoint env) evs)"
    by (intro cmd_generate_key_full) simp_all
  with r assms(1) show ?thesis by simp
qed

text \<open>Sixteen keys named \<open>a\<close> to \<open>p\<close>, then a request for \<open>q\<close>.\<close>

theorem capacity_sixteen_keys_witness:
  "length sixteen_generates = SR_MAX_KEYS \<and> list_all valid_generate sixteen_generates
   \<and> distinct (map event_key_id sixteen_generates)
   \<and> results (TA_CreateEntryPoint env0) sixteen_generates = replicate 16 TEE_SUCCESS
   \<and> g_key_count (run (TA_CreateEntryPoint env0) sixteen_generates) = 16
   \<and> cmd_generate_key env0 (run (TA_CreateEntryPoint env0) sixteen_generates) generate_types
        (generate_params [113] 0)
       = (TEE_ERROR_STORAGE_NO_SPACE, NoOutput, run (TA_CreateEntryPoint env0) sixteen_generates)"
  using capacity_sixteen_keys [OF sixteen_generates_valid, of env0 env0 "generate_params [113] 0"]
    sixteen_generates_valid
  by (simp add: sr_consts)

text \<open>
  The claim as stated asks only for distinct valid identifiers.  Identifiers are kept and
  compared as C strings, so two identifiers of valid length that differ behind a NUL are
  one key: of the sixteen well-formed requests for the distinct three-byte identifiers
  \<open>a NUL b\<close>, \<open>a NUL c\<close>, ..., \<open>a NUL q\<close> the first succeeds and the other fifteen fail with
  \<open>SR_ERROR_KEY_ALREADY_EXISTS\<close>, leaving one live record.
\<close>

theorem capacity_embedded_nul_counterexample:
  "length nul_generates = SR_MAX_KEYS
   \<and> list_all well_formed_generate nul_generates
   \<and> distinct (map event_key_id nul_generates)
   \<and> results (TA_CreateEntryPoint env0) nul_generates
       = TEE_SUCCESS # replicate 15 SR_ERROR_KEY_ALREADY_EXISTS
   \<and> g_key_count (run (TA_CreateEntryPoint env0) nul_generates) = 1"
  by code_simp

subsection \<open>Failure paths of signing\<close>

text \<open>
  Claim C5, as amended.  \<^verbatim>\<open>sign_message\<close> with a hash whose length is not 32 fails with
  \<open>TEE_ERROR_BAD_PARAMETERS\<close> whatever the provider would answer; a well-formed request
  whose identifier, passed as a string (no NUL among the declared bytes, the terminating
  NUL behind them), no live record carries fails with \<open>SR_ERROR_KEY_NOT_FOUND\<close>; a
  well-formed request with such an identifier for a live record that is not active fails
  with \<open>TEE_ERROR_ACCESS_DENIED\<close>.  On each of these paths the state returned is the state
  given, and so it is for every request that fails, whatever its parameters: no usage
  count and no last-used time has changed.
\<close>

theorem sign_message_failure_paths:
  "(memref_size (param1 ps) \<noteq> SR_MESSAGE_HASH_SIZE \<longrightarrow>
      (\<forall>env'. cmd_sign_message env' s pt ps = (TEE_ERROR_BAD_PARAMETERS, NoOutput, s)))
   \<and> (sign_checks pt ps \<and> string_param (param0 ps)
        \<and> (\<forall>j < g_key_count s. stored_key_id (g_key_storage s ! j) \<noteq> declared_bytes (param0 ps)) \<longrightarrow>
      cmd_sign_message env s pt ps = (SR_ERROR_KEY_NOT_FOUND, NoOutput, s))
   \<and> (sign_checks pt ps \<and> string_param (param0 ps) \<and> i < g_key_count s
        \<and> stored_key_id (g_key_storage s ! i) = declared_bytes (param0 ps)
        \<and> (\<forall>j < i. stored_key_id (g_key_storage s ! j) \<noteq> declared_bytes (param0 ps))
        \<and> status (info (g_key_storage s ! i)) \<noteq> SR_KEY_STATUS_ACTIVE \<longrightarrow>
      cmd_sign_message env s pt ps = (TEE_ERROR_ACCESS_DENIED, NoOutput, s))
   \<and> (fst (cmd_sign_message env s pt ps) \<noteq> TEE_SUCCESS \<longrightarrow>
      snd (snd (cmd_sign_message env s pt ps)) = s)"
proof (intro conjI impI allI)
  fix env'
  assume "memref_size (param1 ps) \<noteq> SR_MESSAGE_HASH_SIZE"
  then show "cmd_sign_message env' s pt ps = (TEE_ERROR_BAD_PARAMETERS, NoOutput, s)"
    by (rule sign_bad_hash_length)
next
  assume h: "sign_checks pt ps \<and> string_param (param0 ps)
      \<and> (\<forall>j < g_key_count s. stored_key_id (g_key_storage s ! j) \<noteq> declared_bytes (param0 ps))"
  then have "c_string (memref_buffer (param0 ps)) SR_MAX_KEY_ID_SIZE = declared_bytes (param0 ps)"
    by (intro c_string_string_param) (simp_all add: sign_checks_def)
  with h have "find_key_index s (memref_buffer (param0 ps)) = None"
    by (simp add: find_key_index_None)
  with h show "cmd_sign_message env s pt ps = (SR_ERROR_KEY_NOT_FOUND, NoOutput, s)"
    by (simp add: cmd_sign_message_not_found)
next
  assume h: "sign_checks pt ps \<and> string_param (param0 ps) \<and> i < g_key_count s
      \<and> stored_key_id (g_key_storage s ! i) = declared_bytes (param0 ps)
      \<and> (\<forall>j < i. stored_key_id (g_key_storage s ! j) \<noteq> declared_bytes (param0 ps))
      \<and> status (info (g_key_storage s ! i)) \<noteq> SR_KEY_STATUS_ACTIVE"
  then have "c_string (memref_buffer (param0 ps)) SR_MAX_KEY_ID_SIZE = declared_bytes (param0 ps)"
    by (intro c_string_string_param) (simp_all add: sign_checks_def)
  with h have "find_key_index s (memref_buffer (param0 ps)) = Some i"
    by (intro find_key_index_first) simp_all
  with h show "cmd_sign_message env s pt ps = (TEE_ERROR_ACCESS_DENIED, NoOutput, s)"
    by (simp add: cmd_sign_message_inactive)
next
  assume "fst (cmd_sign_message env s pt ps) \<noteq> TEE_SUCCESS"
  then show "snd (snd (cmd_sign_message env s pt ps)) = s"
    by (rule cmd_sign_message_failure)
qed

text \<open>
  One request for each path: a 31-byte hash, an unknown identifier, the key \<open>abc\<close> after
  its status has been set to inactive, and a request with the wrong parameter types.
\<close>

theorem sign_message_failure_paths_witness:
  "memref_size (param1 (sign_params [97, 98, 99] (replicate 31 5))) \<noteq> SR_MESSAGE_HASH_SIZE
   \<and> cmd_sign_message env0 state_abc sign_types (sign_params [97, 98, 99] (replicate 31 5))
       = (TEE_ERROR_BAD_PARAMETERS, NoOutput, state_abc)
   \<and> sign_checks sign_types (sign_params [120] (replicate 32 5))
   \<and> string_param (param0 (sign_params [120] (replicate 32 5)))
   \<and> g_key_count state_abc = 1
   \<and> stored_key_id (g_key_storage state_abc ! 0) \<noteq> declared_bytes (param0 (sign_params [120] (replicate 32 5)))
   \<and> cmd_sign_message env0 state_abc sign_types (sign_params [120] (replicate 32 5))
       = (SR_ERROR_KEY_NOT_FOUND, NoOutput, state_abc)
   \<and> sign_checks sign_types (sign_params [97, 98, 99] (replicate 32 5))
   \<and> string_param (param0 (sign_params [97, 98, 99] (replicate 32 5)))
   \<and> g_key_count inactive_state = 1
   \<and> stored_key_id (g_key_storage inactive_state ! 0)
       = declared_bytes (param0 (sign_params [97, 98, 99] (replicate 32 5)))
   \<and> status (info (g_key_storage inactive_state ! 0)) \<noteq> SR_KEY_STATUS_ACTIVE
   \<and> cmd_sign_message env0 inactive_state sign_types (sign_params [97, 98, 99] (replicate 32 5))
       = (TEE_ERROR_ACCESS_DENIED, NoOutput, inactive_state)
   \<and> fst (cmd_sign_message digest_failing_env state_abc 0 (sign_params [] [])) \<noteq> TEE_SUCCESS
   \<and> snd (snd (cmd_sign_message digest_failing_env state_abc 0 (sign_params [] []))) = state_abc"
proof -
  have a: "memref_size (param1 (sign_params [97, 98, 99] (replicate 31 5))) \<noteq> SR_MESSAGE_HASH_SIZE"
    by code_simp
  have b: "sign_checks sign_types (sign_params [120] (replicate 32 5))"
    "string_param (param0 (sign_params [120] (replicate 32 5)))"
    "g_key_count state_abc = 1"
    "stored_key_id (g_key_storage state_abc ! 0)
       \<noteq> declared_bytes (param0 (sign_params [120] (replicate 32 5)))"
    by code_simp+
  have c: "sign_checks sign_types (sign_params [97, 98, 99] (replicate 32 5))"
    "string_param (param0 (sign_params [97, 98, 99] (replicate 32 5)))"
    "g_key_count inactive_state = 1"
    "stored_key_id (g_key_storage inactive_state ! 0)
       = declared_bytes (param0 (sign_params [97, 98, 99] (replicate 32 5)))"
    "status (info (g_key_storage inactive_state ! 0)) \<noteq> SR_KEY_STATUS_ACTIVE"
    by code_simp+
  note t1 = sign_message_failure_paths [where ps = "sign_params [97, 98, 99] (replicate 31 5)"
      and s = state_abc and pt = sign_types and env = env0, THEN conjunct1, rule_format, OF a, of env0]
  note t2 = sign_message_failure_paths [where ps = "sign_params [120] (replicate 32 5)"
      and s = state_abc and pt = sign_types and env = env0, THEN conjunct2, THEN conjunct1]
  note t3 = sign_message_failure_paths [where ps = "sign_params [97, 98, 99] (replicate 32 5)"
      and s = inactive_state and pt = sign_types and env = env0 and i = 0,
      THEN conjunct2, THEN conjunct2, THEN conjunct1]
  have d: "fst (cmd_sign_message digest_failing_env state_abc 0 (sign_params [] [])) \<noteq> TEE_SUCCESS"
    by code_simp
  note t4 = sign_message_failure_paths [where ps = "sign_params [] []"
      and s = state_abc and pt = 0 and env = digest_failing_env,
      THEN conjunct2, THEN conjunct2, THEN conjunct2, rule_format, OF d]
  from t1 t2 t3 t4 a b c d show ?thesis by simp
qed

text \<open>
  The claim as stated has every identifier that no live record carries fail with not
  found.  Identifiers are compared as C strings: in the state holding the key \<open>abc\<close>, a
  request that declares the five bytes \<open>a b c NUL d\<close>, which are not the identifier of the
  live record, succeeds and counts as a use of the key \<open>abc\<close>.
\<close>

theorem sign_message_embedded_nul_counterexample:
  "g_key_count state_abc = 1
   \<and> stored_key_id (g_key_storage state_abc ! 0) = [97, 98, 99]
   \<and> declared_bytes (param0 (sign_params [97, 98, 99, 0, 100] (replicate 32 5)))
       = [97, 98, 99, 0, 100]
   \<and> usage_count (info (g_key_storage state_abc ! 0)) = 0
   \<and> fst (cmd_sign_message env0 state_abc sign_types
          (sign_params [97, 98, 99, 0, 100] (replicate 32 5))) = TEE_SUCCESS
   \<and> usage_count (info (g_key_storage (snd (snd (cmd_sign_message env0 state_abc sign_types
          (sign_params [97, 98, 99, 0, 100] (replicate 32 5))))) ! 0)) = 1"
  by code_simp

subsection \<open>Usage statistics\<close>

text \<open>
  Claim C6, as amended.  A key that \<^verbatim>\<open>generate_key\<close> has just created has usage count 0.
  After any further calls, among them \<open>N\<close> successful \<^verbatim>\<open>sign_message\<close> calls with that key,
  its usage count is \<open>N\<close> modulo \<open>2^32\<close> (the counter is a \<^verbatim>\<open>uint32_t\<close>), hence \<open>N\<close> as long
  as \<open>N < 2^32\<close>.  When the clock readings of the calls do not decrease, the last-used
  times observed after these signatures do not decrease either, starting from the
  creation time.
\<close>

theorem usage_count_counts_signatures:
  assumes "reachable s"
    and "step s gen = (TEE_SUCCESS, out, s1)"
    and "command_of gen = Some TA_SUPER_RELAY_CMD_GENERATE_KEY"
  shows "usage_count (info (g_key_storage s1 ! g_key_count s)) = 0
     \<and> usage_count (info (g_key_storage (run s1 evs) ! g_key_count s))
         = of_nat (signs_on (g_key_count s) s1 evs)
     \<and> unat (usage_count (info (g_key_storage (run s1 evs) ! g_key_count s)))
         = signs_on (g_key_count s) s1 evs mod 2 ^ 32
     \<and> (signs_on (g_key_count s) s1 evs < 2 ^ 32 \<longrightarrow>
          unat (usage_count (info (g_key_storage (run s1 evs) ! g_key_count s)))
            = signs_on (g_key_count s) s1 evs)
     \<and> (sorted (clock (gen # evs)) \<longrightarrow>
          sorted (created_time (info (g_key_storage s1 ! g_key_count s))
                  # use_times (g_key_count s) s1 evs))"
  using assms(2)
proof (cases rule: step_cases)
  case (counters c n)
  with assms(3) show ?thesis by simp
next
  case (failed env pt ps ke)
  then show ?thesis by simp
next
  case (signed env pt ps i r)
  with assms(3) show ?thesis by (simp add: cmd_ids)
next
  case (generated env pt ps ke)
  let ?i = "g_key_count s"
  note inv = reachable_invariants [OF assms(1)]
  have lt: "?i < length (g_key_storage s)"
    using generated(2) inv(1) by (simp add: generate_checks_def arrays_ok_def)
  have slot: "g_key_storage s1 ! ?i = ke"
    using generated(7) lt by (simp add: generated_state_slot)
  have live: "?i < g_key_count s1"
    using generated(7) by (simp add: generated_state_def)
  have "reachable s1"
    using reachable.stepped [OF assms(1), of gen] assms(2) by (simp add: step_state_eq)
  then have ok: "arrays_ok s1"
    by (rule reachable_invariants(1))
  have u0: "usage_count (info (g_key_storage s1 ! ?i)) = 0"
    using keypair_by_type_statistics(1) [OF generated(3)] slot by simp
  have u: "usage_count (info (g_key_storage (run s1 evs) ! ?i)) = of_nat (signs_on ?i s1 evs)"
    using usage_run [OF ok live, of evs] u0 by simp
  have un: "unat (usage_count (info (g_key_storage (run s1 evs) ! ?i))) = signs_on ?i s1 evs mod 2 ^ 32"
    unfolding u by (simp add: unat_of_nat)
  have ct: "created_time (info (g_key_storage s1 ! ?i)) = get_current_time env"
    using keypair_by_type_statistics(2) [OF generated(3)] slot by simp
  have "sorted (created_time (info (g_key_storage s1 ! ?i)) # use_times ?i s1 evs)"
    if "sorted (clock (gen # evs))"
  proof -
    from that generated(1) have srt: "sorted (clock evs)"
      and ge: "\<forall>c \<in> set (clock evs). system_time_seconds env \<le> c"
      by simp_all
    have "\<forall>c \<in> set (clock evs). get_current_time env \<le> ucast c"
      using ge by (simp add: get_current_time_def ucast_seconds_mono)
    from use_times_sorted [OF ok live srt this] ct show ?thesis
      by simp
  qed
  with u0 u un show ?thesis by simp
qed

text \<open>
  Key \<open>abc\<close> created at time 1000, then a signature at 1005, a session opening and a
  signature at 1010.
\<close>

theorem usage_count_counts_signatures_witness:
  "reachable (TA_CreateEntryPoint env0)
   \<and> step (TA_CreateEntryPoint env0) generate_abc = (TEE_SUCCESS, Address (map of_nat [13..<33]), state_abc)
   \<and> command_of generate_abc = Some TA_SUPER_RELAY_CMD_GENERATE_KEY
   \<and> signs_on 0 state_abc signs_and_a_session = 2
   \<and> usage_count (info (g_key_storage (run state_abc signs_and_a_session) ! 0)) = 2
   \<and> sorted (clock (generate_abc # signs_and_a_session))
   \<and> created_time (info (g_key_storage state_abc ! 0)) # use_times 0 state_abc signs_and_a_session
       = [1000, 1005, 1010]"
proof -
  have g: "step (TA_CreateEntryPoint env0) generate_abc
      = (TEE_SUCCESS, Address (map of_nat [13..<33]), state_abc)"
    by code_simp
  have c: "command_of generate_abc = Some TA_SUPER_RELAY_CMD_GENERATE_KEY"
    by (simp add: generate_abc_def)
  have k: "g_key_count (TA_CreateEntryPoint env0) = 0"
    by simp
  have n: "signs_on 0 state_abc signs_and_a_session = 2"
    by code_simp
  have s: "sorted (clock (generate_abc # signs_and_a_session))"
    by code_simp
  have t: "created_time (info (g_key_storage state_abc ! 0)) # use_times 0 state_abc signs_and_a_session
       = [1000, 1005, 1010]"
    by code_simp
  note r = usage_count_counts_signatures [OF reachable.created g c, of signs_and_a_session,
      unfolded k n]
  from r have "usage_count (info (g_key_storage (run state_abc signs_and_a_session) ! 0)) = 2"
    by simp
  with g c n s t reachable.created [of env0] show ?thesis
    by (intro conjI)
qed

text \<open>
  The claim as stated is for every \<open>N\<close>.  After \<open>2^32\<close> successful signatures with the key
  \<open>abc\<close> its usage count is 0 again.
\<close>

theorem usage_count_wraps_counterexample:
  "signs_on 0 state_abc (replicate 4294967296 (sign_abc 1000)) = 4294967296
   \<and> usage_count (info (g_key_storage (run state_abc (replicate 4294967296 (sign_abc 1000))) ! 0)) = 0"
proof -
  have n: "signs_on 0 state_abc (replicate 4294967296 (sign_abc 1000)) = 4294967296"
    using reachable_state_abc state_abc_key(1,2) by (rule signs_on_replicate_sign_abc)
  have "usage_count (info (g_key_storage (run state_abc (replicate 4294967296 (sign_abc 1000))) ! 0))
      = usage_count (info (g_key_storage state_abc ! 0))
        + of_nat (signs_on 0 state_abc (replicate 4294967296 (sign_abc 1000)))"
    using reachable_invariants(1) [OF reachable_state_abc] state_abc_key(4)
    by (intro usage_run) simp_all
  also have "\<dots> = 0"
    unfolding n state_abc_key(3) by simp
  finally show ?thesis
    using n by simp
qed

subsection \<open>Round trip\<close>

text \<open>
  Claim C7 says that after every successful \<^verbatim>\<open>generate_key\<close> returning the address \<open>A\<close>,
  \<^verbatim>\<open>get_public_key\<close> for the same identifier returns a public key whose address, derived
  again by hashing and truncating, is \<open>A\<close>.  The code does not keep to it when the digest
  call fails during generation, where \<^verbatim>\<open>derive_ethereum_address\<close> clears the address and
  \<^verbatim>\<open>generate_key\<close> succeeds all the same (the failure of any other provider call is
  returned to the caller).  In a fresh instance, with a provider whose digest call
  reports an error, \<^verbatim>\<open>generate_key\<close> for \<open>abc\<close> succeeds with twenty zero bytes;
  \<^verbatim>\<open>get_public_key\<close> for \<open>abc\<close> then succeeds with the public key 1, ..., 64 and the same
  twenty zero bytes, and the address derived from that public key is 13, ..., 32.
\<close>

theorem round_trip_broken_by_digest_failure:
  "fst (cmd_generate_key digest_failing_env (TA_CreateEntryPoint env0) generate_types
          (generate_params [97, 98, 99] 0)) = TEE_SUCCESS
   \<and> fst (snd (cmd_generate_key digest_failing_env (TA_CreateEntryPoint env0) generate_types
          (generate_params [97, 98, 99] 0))) = Address (replicate 20 0)
   \<and> fst (cmd_get_public_key
          (snd (snd (cmd_generate_key digest_failing_env (TA_CreateEntryPoint env0) generate_types
             (generate_params [97, 98, 99] 0))))
          get_public_key_types (get_public_key_params [97, 98, 99])) = TEE_SUCCESS
   \<and> fst (snd (cmd_get_public_key
          (snd (snd (cmd_generate_key digest_failing_env (TA_CreateEntryPoint env0) generate_types
             (generate_params [97, 98, 99] 0))))
          get_public_key_types (get_public_key_params [97, 98, 99])))
       = PublicKeyResult \<lparr>pk_public_key = map of_nat [1..<65], pk_public_key_len = 64,
           pk_ethereum_address = replicate 20 0, pk_reserved = replicate 8 0\<rparr>
   \<and> derive_ethereum_address env0 (map of_nat [1..<65]) = map of_nat [13..<33]"
  by code_simp

subsection \<open>Key lookup\<close>




subsection \<open>Sessions\<close>

text \<open>
  Claim C9, as amended.  The session count that \<^verbatim>\<open>health_check\<close> reports after any sequence
  of calls with fewer than \<open>2^32\<close> session openings is the running count of the state
  machine: one more per opening, one less per closing unless it is zero already.  It is
  the number of openings minus the number of closings when every closing finds a session
  open, and a closing at zero leaves it at zero.
\<close>

theorem sessions_stepwise_net:
  assumes "opens evs < 2 ^ 32"
    and "pt = output_only_types" "sizeof_sr_health_result_t \<le> memref_size (param0 ps)"
  shows "reported_sessions (cmd_health_check env (run (TA_CreateEntryPoint env') evs) pt ps)
           = Some (of_nat (session_model 0 evs))
         \<and> session_model 0 evs < 2 ^ 32
         \<and> (closes_matched 0 evs \<longrightarrow> session_model 0 evs = opens evs - closes evs)
         \<and> (\<forall>s. g_session_count s = 0 \<longrightarrow> g_session_count (TA_CloseSessionEntryPoint s) = 0)"
proof -
  have "g_session_count (run (TA_CreateEntryPoint env') evs) = of_nat (session_model 0 evs)"
    using assms(1) by (intro session_count_run) simp_all
  moreover have "session_model 0 evs < 2 ^ 32"
    using session_model_le [of 0 evs] assms(1) by simp
  moreover have "closes_matched 0 evs \<longrightarrow> session_model 0 evs = opens evs - closes evs"
    using session_model_matched [of 0 evs] by simp
  ultimately show ?thesis
    using assms(2,3) by (simp add: reported_sessions_health TA_CloseSessionEntryPoint_def)
qed

text \<open>Two openings and a closing.\<close>

theorem sessions_stepwise_net_witness:
  "opens [OpenSession, OpenSession, CloseSession] < 2 ^ 32
   \<and> sizeof_sr_health_result_t \<le> memref_size (param0 health_params)
   \<and> closes_matched 0 [OpenSession, OpenSession, CloseSession]
   \<and> reported_sessions (cmd_health_check env0
        (run (TA_CreateEntryPoint env0) [OpenSession, OpenSession, CloseSession])
        output_only_types health_params) = Some 1
   \<and> opens [OpenSession, OpenSession, CloseSession]
        - closes [OpenSession, OpenSession, CloseSession] = 1"
  using sessions_stepwise_net [of "[OpenSession, OpenSession, CloseSession]"
      output_only_types health_params env0 env0]
  by (simp add: health_params_def memref_def sizeof_sr_health_result_t_def)

text \<open>
  The claim as stated takes the difference of the two totals and floors it.  A closing
  that finds no session open is forgotten, so after a closing and then an opening one
  session is reported, while the floored difference of the totals is zero.
\<close>

theorem sessions_floored_difference_counterexample:
  "reported_sessions (cmd_health_check env0 (run (TA_CreateEntryPoint env0) [CloseSession, OpenSession])
      output_only_types health_params) = Some 1
   \<and> opens [CloseSession, OpenSession] - closes [CloseSession, OpenSession] = 0"
  by (simp add: reported_sessions_health health_params_def memref_def sizeof_sr_health_result_t_def
      step_state_session)

subsection \<open>Key types\<close>

text \<open>
  Claim C10.  In every reachable state each live record has key type
  \<open>SR_KEY_TYPE_ECDSA_SECP256K1\<close>.  Hence whatever record the lookup finds is of that
  type, \<^verbatim>\<open>sign_message\<close> on a found active key is exactly the ECDSA branch (the Ed25519
  and unsupported branches are never taken), and \<^verbatim>\<open>generate_key\<close> for any other type
  fails and adds no record.
\<close>

theorem live_keys_are_secp256k1:
  assumes "reachable s"
  shows "(\<forall>i < g_key_count s. key_type (g_key_storage s ! i) = SR_KEY_TYPE_ECDSA_SECP256K1)
    \<and> (\<forall>kid i. find_key_index s kid = Some i \<longrightarrow>
          key_type (g_key_storage s ! i) = SR_KEY_TYPE_ECDSA_SECP256K1)
    \<and> (\<forall>env pt ps i.
          sign_checks pt ps \<and> find_key_index s (memref_buffer (param0 ps)) = Some i
          \<and> status (info (g_key_storage s ! i)) = SR_KEY_STATUS_ACTIVE \<longrightarrow>
          cmd_sign_message env s pt ps =
            (case sign_message_ecdsa env (g_key_storage s ! i)
                    (map (memref_buffer (param1 ps)) [0..<SR_MESSAGE_HASH_SIZE])
                    zero_signature_result of
               (res, result) \<Rightarrow>
                 if res = TEE_SUCCESS then (res, SignatureResult result, signed_state env s i)
                 else (res, SignatureResult result, s)))
    \<and> (\<forall>env pt ps. value_a (param1 ps) \<noteq> SR_KEY_TYPE_ECDSA_SECP256K1 \<longrightarrow>
          fst (cmd_generate_key env s pt ps) \<noteq> TEE_SUCCESS
          \<and> g_key_count (snd (snd (cmd_generate_key env s pt ps))) = g_key_count s
          \<and> g_keys (snd (snd (cmd_generate_key env s pt ps))) = g_keys s)"
proof (intro conjI allI impI)
  note inv = reachable_invariants [OF assms]
  show ecdsa: "key_type (g_key_storage s ! i) = SR_KEY_TYPE_ECDSA_SECP256K1" if "i < g_key_count s" for i
    using inv(3) that by (simp add: all_ecdsa_def)
  show found: "key_type (g_key_storage s ! i) = SR_KEY_TYPE_ECDSA_SECP256K1"
    if "find_key_index s kid = Some i" for kid i
    using find_key_index_Some(1) [OF that] by (rule ecdsa)
  show "cmd_sign_message env s pt ps =
      (case sign_message_ecdsa env (g_key_storage s ! i)
              (map (memref_buffer (param1 ps)) [0..<SR_MESSAGE_HASH_SIZE])
              zero_signature_result of
         (res, result) \<Rightarrow>
           if res = TEE_SUCCESS then (res, SignatureResult result, signed_state env s i)
           else (res, SignatureResult result, s))"
    if h: "sign_checks pt ps \<and> find_key_index s (memref_buffer (param0 ps)) = Some i
          \<and> status (info (g_key_storage s ! i)) = SR_KEY_STATUS_ACTIVE" for env pt ps i
  proof -
    from h found have "key_type (g_key_storage s ! i) = SR_KEY_TYPE_ECDSA_SECP256K1"
      by blast
    then have "sign_by_type env (g_key_storage s ! i) (memref_buffer (param1 ps)) =
        sign_message_ecdsa env (g_key_storage s ! i)
          (map (memref_buffer (param1 ps)) [0..<SR_MESSAGE_HASH_SIZE]) zero_signature_result"
      by (simp add: sign_by_type_def)
    with h show ?thesis
      by (simp add: cmd_sign_message_active signed_state_def split: prod.splits)
  qed
next
  fix env :: tee_env and pt :: "32 word" and ps :: TEE_Params
  assume t: "value_a (param1 ps) \<noteq> SR_KEY_TYPE_ECDSA_SECP256K1"
  obtain res out s' where g: "cmd_generate_key env s pt ps = (res, out, s')"
    by (cases "cmd_generate_key env s pt ps")
  from g have "res \<noteq> TEE_SUCCESS \<and> g_key_count s' = g_key_count s \<and> g_keys s' = g_keys s"
  proof (cases rule: cmd_generate_key_cases)
    case rejected
    then show ?thesis by simp
  next
    case (failed ke)
    then show ?thesis by simp
  next
    case (generated ke)
    with keypair_by_type_success(1) [OF generated(2)] t show ?thesis by simp
  qed
  with g show "fst (cmd_generate_key env s pt ps) \<noteq> TEE_SUCCESS"
    "g_key_count (snd (snd (cmd_generate_key env s pt ps))) = g_key_count s"
    "g_keys (snd (snd (cmd_generate_key env s pt ps))) = g_keys s"
    by simp_all
qed

text \<open>The state after generating \<open>abc\<close>.\<close>

theorem live_keys_are_secp256k1_witness:
  "reachable state_abc \<and> g_key_count state_abc = 1
   \<and> key_type (g_key_storage state_abc ! 0) = SR_KEY_TYPE_ECDSA_SECP256K1
   \<and> find_key_index state_abc (mem_of [97, 98, 99]) = Some 0
   \<and> sign_checks sign_types (sign_params [97, 98, 99] (replicate 32 5))
   \<and> status (info (g_key_storage state_abc ! 0)) = SR_KEY_STATUS_ACTIVE
   \<and> fst (cmd_sign_message env0 state_abc sign_types (sign_params [97, 98, 99] (replicate 32 5)))
       = TEE_SUCCESS
   \<and> value_a (param1 (generate_params [100] 1)) \<noteq> SR_KEY_TYPE_ECDSA_SECP256K1
   \<and> fst (cmd_generate_key env0 state_abc generate_types (generate_params [100] 1)) \<noteq> TEE_SUCCESS"
proof -
  have c: "g_key_count state_abc = 1"
    and f: "find_key_index state_abc (mem_of [97, 98, 99]) = Some 0"
    and k: "sign_checks sign_types (sign_params [97, 98, 99] (replicate 32 5))"
    and a: "status (info (g_key_storage state_abc ! 0)) = SR_KEY_STATUS_ACTIVE"
    and g: "fst (cmd_sign_message env0 state_abc sign_types
              (sign_params [97, 98, 99] (replicate 32 5))) = TEE_SUCCESS"
    and v: "value_a (param1 (generate_params [100] 1)) \<noteq> SR_KEY_TYPE_ECDSA_SECP256K1"
    by code_simp+
  from live_keys_are_secp256k1 [OF reachable_state_abc] c f k a g v reachable_state_abc
  show ?thesis by simp
qed


end
